theory Spec2Isabelle
  imports Complex_Main "HOL-Library.Multiset"
begin

section \<open>C library and system interface\<close>

text \<open>
  The plugin file \<^verbatim>\<open>src/platform-aws.c\<close> is embedded function by function. C strings are
  \<open>string\<close> (bytes), a pointer that may be \<^verbatim>\<open>NULL\<close> is an \<open>option\<close>, and every call into
  libc or Libfabric whose outcome the code branches on is an input of the model.
\<close>

definition EIO :: int where "EIO = 5"
definition ENOMEM :: int where "ENOMEM = 12"
definition EINVAL :: int where "EINVAL = 22"
definition ENOTSUP :: int where "ENOTSUP = 95"
definition FI_ENOPROTOOPT :: int where "FI_ENOPROTOOPT = 92"
definition FI_EOPNOTSUPP :: int where "FI_EOPNOTSUPP = 95"

definition NUL :: char where "NUL = CHR 0x00"
definition newline :: char where "newline = CHR 0x0A"

text \<open>\<^verbatim>\<open>strlen\<close> and the C string that starts at an offset of a buffer: both stop at the
  first NUL byte.\<close>

definition c_str :: "string \<Rightarrow> string" where
  "c_str buf = takeWhile (\<lambda>c. c \<noteq> NUL) buf"

definition strlen :: "string \<Rightarrow> nat" where
  "strlen buf = length (c_str buf)"

definition c_string_at :: "string \<Rightarrow> nat \<Rightarrow> string" where
  "c_string_at buf k = c_str (drop k buf)"

definition tolower :: "char \<Rightarrow> char" where
  "tolower c = (if (65::nat) \<le> of_char c \<and> (of_char c :: nat) \<le> 90
                then char_of (of_char c + (32::nat)) else c)"

definition strcasecmp_eq :: "string \<Rightarrow> string \<Rightarrow> bool" where
  "strcasecmp_eq a b = (map tolower a = map tolower b)"

definition isspace :: "char \<Rightarrow> bool" where
  "isspace c = (c \<in> set [CHR 0x20, CHR 0x09, CHR 0x0A, CHR 0x0B, CHR 0x0C, CHR 0x0D])"

definition isdigit :: "char \<Rightarrow> bool" where
  "isdigit c = (c \<in> set ''0123456789'')"

definition digit_val :: "char \<Rightarrow> int" where
  "digit_val c = of_char c - 48"

text \<open>\<^verbatim>\<open>strtol(nptr, &endptr, 10)\<close>: leading white space, an optional sign, then decimal
  digits. The result is the value, clamped to the range of \<^verbatim>\<open>long\<close>, and the number of
  characters consumed (\<^verbatim>\<open>endptr - nptr\<close>), which is 0 when no digit was found.\<close>

fun strtol_digits :: "int \<Rightarrow> nat \<Rightarrow> string \<Rightarrow> int \<times> nat" where
  "strtol_digits acc k [] = (acc, k)"
| "strtol_digits acc k (c # cs) =
     (if isdigit c then strtol_digits (acc * 10 + digit_val c) (Suc k) cs else (acc, k))"

definition long_clamp :: "int \<Rightarrow> int" where
  "long_clamp v = max (- (2 ^ 63)) (min (2 ^ 63 - 1) v)"

definition strtol10 :: "string \<Rightarrow> int \<times> nat" where
  "strtol10 s =
     (let ws = takeWhile isspace s;
          r = dropWhile isspace s;
          neg = (r \<noteq> [] \<and> hd r = CHR ''-'');
          sgn = (if r \<noteq> [] \<and> (hd r = CHR ''-'' \<or> hd r = CHR ''+'') then 1 else 0);
          (v, k) = strtol_digits 0 0 (drop sgn r)
      in if k = 0 then (0, 0)
         else (long_clamp (if neg then - v else v), length ws + sgn + k))"

text \<open>The cast \<^verbatim>\<open>(int)\<close> of a \<^verbatim>\<open>long\<close> keeps the low 32 bits, read as signed.\<close>

definition int_cast :: "int \<Rightarrow> int" where
  "int_cast v = signed_take_bit 31 v"

text \<open>A file of the host: absent (\<^verbatim>\<open>fopen\<close> fails), or a sequence of bytes after which
  reading meets the end of the file or an I/O error.\<close>

datatype stream_end = At_EOF | IO_Error

datatype host_file = Absent | Present string stream_end

type_synonym filesystem = "string \<Rightarrow> host_file"

text \<open>\<^verbatim>\<open>fgets(buf, size, fp)\<close> on a fresh stream: at most \<open>size - 1\<close> bytes, stopping after a
  newline. It returns \<^verbatim>\<open>NULL\<close> when the end of the file is met before any byte, or on a read
  error.\<close>

fun fgets_chars :: "nat \<Rightarrow> string \<Rightarrow> string" where
  "fgets_chars 0 cs = []"
| "fgets_chars (Suc k) [] = []"
| "fgets_chars (Suc k) (c # cs) = (if c = newline then [c] else c # fgets_chars k cs)"

definition fgets :: "nat \<Rightarrow> string \<Rightarrow> stream_end \<Rightarrow> string option" where
  "fgets sz cs e =
     (let got = fgets_chars (sz - 1) cs;
          complete = (length got = sz - 1 \<or> (got \<noteq> [] \<and> last got = newline))
      in if complete then Some got
         else (case e of IO_Error \<Rightarrow> None
               | At_EOF \<Rightarrow> if got = [] then None else Some got))"

section \<open>Rail descriptors and the virtual function index\<close>

text \<open>A \<^verbatim>\<open>struct fi_info\<close>, reduced to the fields the file reads:
  \<^verbatim>\<open>fabric_attr->prov_name\<close>, \<^verbatim>\<open>nic->device_attr->name\<close> and \<^verbatim>\<open>next\<close>. Descriptors live in
  a heap indexed by address; \<^verbatim>\<open>NULL\<close> is \<open>None\<close>.\<close>

record fi_info =
  prov_name :: string
  device_name :: string
  nxt :: "nat option"

type_synonym info_heap = "nat \<Rightarrow> fi_info"

text \<open>\<^verbatim>\<open>snprintf\<close> into \<^verbatim>\<open>guid_file[256]\<close> keeps at most 255 bytes of the path.\<close>

definition guid_file :: "string \<Rightarrow> string" where
  "guid_file name = take 255 (''/sys/class/infiniband/'' @ c_str name @ ''/node_guid'')"

datatype vf_result = Vf_Error int | Vf_Idx int

text \<open>The value of type \<^verbatim>\<open>int\<close> the C function returns: a negative errno and a parsed index
  share it.\<close>

fun vf_ret :: "vf_result \<Rightarrow> int" where
  "vf_ret (Vf_Error e) = e"
| "vf_ret (Vf_Idx v) = v"

text \<open>The checks of \<^verbatim>\<open>get_rail_vf_idx\<close> on the buffer \<^verbatim>\<open>guid\<close> that \<^verbatim>\<open>fgets\<close> filled: the
  length, the colon at index 14, and \<^verbatim>\<open>strtol(guid + 17, &endptr, 10)\<close> with
  \<^verbatim>\<open>endptr == guid + 19\<close>.\<close>

definition vf_idx_of_guid :: "string \<Rightarrow> vf_result" where
  "vf_idx_of_guid guid =
     (if strlen guid \<noteq> 19 then Vf_Error (- EINVAL)
      else if guid ! 14 \<noteq> CHR '':'' then Vf_Error (- EINVAL)
      else (let (v, consumed) = strtol10 (c_string_at guid 17)
            in if 17 + consumed \<noteq> 19 then Vf_Error (- EINVAL)
               else Vf_Idx (int_cast v)))"

definition get_rail_vf_idx :: "filesystem \<Rightarrow> fi_info \<Rightarrow> vf_result" where
  "get_rail_vf_idx fs info =
     (case fs (guid_file (device_name info)) of
        Absent \<Rightarrow> Vf_Error (- EIO)
      | Present cs e \<Rightarrow>
          (case fgets 20 cs e of
             None \<Rightarrow> Vf_Error (- EIO)
           | Some guid \<Rightarrow> vf_idx_of_guid guid))"

text \<open>The identifier format as the specification words it, for comparison with the checks
  above: 19 characters, four groups of four hexadecimal digits (either case) joined by
  colons, the slot being the value of the last two digits.\<close>

definition is_hex :: "char \<Rightarrow> bool" where
  "is_hex c = (c \<in> set ''0123456789abcdefABCDEF'')"

definition spec_guid_format :: "string \<Rightarrow> bool" where
  "spec_guid_format g =
     (length g = 19 \<and> list_all is_hex (take 4 g) \<and> g ! 4 = CHR '':'' \<and>
      list_all is_hex (take 4 (drop 5 g)) \<and> g ! 9 = CHR '':'' \<and>
      list_all is_hex (take 4 (drop 10 g)) \<and> g ! 14 = CHR '':'' \<and>
      list_all is_hex (drop 15 g))"

definition hex_val :: "char \<Rightarrow> int" where
  "hex_val c = (if isdigit c then of_char c - 48
                else if c \<in> set ''abcdef'' then of_char c - 87
                else of_char c - 55)"

definition spec_slot :: "string \<Rightarrow> int" where
  "spec_slot g = hex_val (g ! 17) * 16 + hex_val (g ! 18)"

section \<open>Rail ordering\<close>

text \<open>The caller's list: the head pointer \<^verbatim>\<open>*info_list\<close> and the heap of descriptors.\<close>

record rails =
  info_list :: "nat option"
  heap :: info_heap

datatype sort_failure = List_Too_Short | Invalid_Vf_Idx int | Duplicate_Slot

datatype assign_result =
    Assigned "nat option list"
  | Failed sort_failure
  | Out_Of_Bounds

text \<open>The first loop of \<^verbatim>\<open>platform_sort_rails\<close>, with \<open>k\<close> iterations left: \<open>p\<close> is
  \<^verbatim>\<open>info_list_in\<close>, \<open>arr\<close> is \<^verbatim>\<open>sorted_info_array\<close>. Every \<^verbatim>\<open>goto error\<close> is a \<open>Failed\<close>
  result; an index outside the array, which C leaves undefined, is \<open>Out_Of_Bounds\<close>.\<close>

fun assign_rails ::
  "filesystem \<Rightarrow> info_heap \<Rightarrow> nat \<Rightarrow> nat option \<Rightarrow> nat list \<Rightarrow> nat option list \<Rightarrow> assign_result"
where
  "assign_rails fs h 0 p rail_map arr = Assigned arr"
| "assign_rails fs h (Suc k) p rail_map arr =
     (case p of
        None \<Rightarrow> Failed List_Too_Short
      | Some a \<Rightarrow>
          (let vf_idx = vf_ret (get_rail_vf_idx fs (h a))
           in if vf_idx < 0 \<or> vf_idx \<ge> 2 then Failed (Invalid_Vf_Idx vf_idx)
              else (let rail_idx = rail_map ! nat vf_idx;
                        rail_map' = rail_map[nat vf_idx := rail_idx + 1]
                    in if rail_idx \<ge> length arr then Out_Of_Bounds
                       else if arr ! rail_idx \<noteq> None then Failed Duplicate_Slot
                       else assign_rails fs h k (nxt (h a)) rail_map'
                              (arr[rail_idx := Some a]))))"

text \<open>The second loop, over the indices \<open>i\<close> still to visit: \<open>p\<close> is \<^verbatim>\<open>info_ptr\<close>. A failed
  \<^verbatim>\<open>assert\<close> is \<open>None\<close>.\<close>

fun relink :: "nat option list \<Rightarrow> nat \<Rightarrow> nat list \<Rightarrow> nat option \<Rightarrow> info_heap \<Rightarrow> info_heap option"
where
  "relink arr n [] p h = Some h"
| "relink arr n (i # is) p h =
     (case p of
        None \<Rightarrow> None
      | Some a \<Rightarrow>
          (if arr ! i = None then None
           else (let h' = h(a := (h a)\<lparr>nxt := (if i = n - 1 then None else arr ! (i + 1))\<rparr>)
                 in relink arr n is (nxt (h' a)) h')))"

text \<open>\<^verbatim>\<open>platform_sort_rails\<close> returns \<^verbatim>\<open>void\<close>: all the caller gets back is the list. \<open>None\<close>
  stands for the runs C leaves undefined.\<close>

definition platform_sort_rails :: "filesystem \<Rightarrow> rails \<Rightarrow> int \<Rightarrow> rails option" where
  "platform_sort_rails fs st num_rails =
     (if num_rails \<le> 0 then Some st
      else (let n = nat num_rails
            in case assign_rails fs (heap st) n (info_list st) [0, 2] (replicate n None) of
                 Failed e \<Rightarrow> Some st
               | Out_Of_Bounds \<Rightarrow> None
               | Assigned arr \<Rightarrow>
                   (case relink arr n [0..<n] (arr ! 0) (heap st) of
                      None \<Rightarrow> None
                    | Some h' \<Rightarrow> Some \<lparr>info_list = arr ! 0, heap = h'\<rparr>)))"

text \<open>The descriptors reached from a head pointer in at most \<open>k\<close> steps, in link order.\<close>

fun list_nodes :: "info_heap \<Rightarrow> nat \<Rightarrow> nat option \<Rightarrow> nat list" where
  "list_nodes h 0 p = []"
| "list_nodes h (Suc k) p =
     (case p of None \<Rightarrow> [] | Some a \<Rightarrow> a # list_nodes h k (nxt (h a)))"

subsection \<open>A four-rail host\<close>

text \<open>Four descriptors at addresses 1 to 4, linked in discovery order, for the devices
  \<^verbatim>\<open>rdmap0\<close> to \<^verbatim>\<open>rdmap3\<close>, and a file system that holds one identifier file for each.\<close>

definition example_heap :: info_heap where
  "example_heap a =
     \<lparr>prov_name = ''efa'',
      device_name = (if a = 1 then ''rdmap0'' else if a = 2 then ''rdmap1''
                     else if a = 3 then ''rdmap2'' else ''rdmap3''),
      nxt = (if a = 1 then Some 2 else if a = 2 then Some 3
             else if a = 3 then Some 4 else None)\<rparr>"

definition example_rails :: rails where
  "example_rails = \<lparr>info_list = Some 1, heap = example_heap\<rparr>"

definition example_fs :: "string \<Rightarrow> string \<Rightarrow> string \<Rightarrow> string \<Rightarrow> filesystem" where
  "example_fs g0 g1 g2 g3 p =
     (if p = ''/sys/class/infiniband/rdmap0/node_guid'' then Present (g0 @ [newline]) At_EOF
      else if p = ''/sys/class/infiniband/rdmap1/node_guid'' then Present (g1 @ [newline]) At_EOF
      else if p = ''/sys/class/infiniband/rdmap2/node_guid'' then Present (g2 @ [newline]) At_EOF
      else if p = ''/sys/class/infiniband/rdmap3/node_guid'' then Present (g3 @ [newline]) At_EOF
      else Absent)"

definition grouped_fs :: filesystem where
  "grouped_fs = example_fs ''0000:0000:0000:0000'' ''0000:0000:0000:0000''
                           ''0000:0000:0000:0001'' ''0000:0000:0000:0001''"

definition malformed_fs :: filesystem where
  "malformed_fs = example_fs ''0000:0000:0000:0000'' ''0000:0000:0000:0000''
                             ''0000:0000:0000:0001'' ''0000:0000''"

section \<open>The platform catalog\<close>

text \<open>\<^verbatim>\<open>struct ec2_platform_data\<close>. A field a table entry leaves out is zero in C: a \<^verbatim>\<open>NULL\<close>
  topology, 0 duplicate connections, latency 0.0. The latencies of the table are small
  whole numbers, which \<^verbatim>\<open>float\<close> represents exactly. The field \<^verbatim>\<open>domain_per_thread\<close> is
  \<open>pd_domain_per_thread\<close> here, the global of the same name keeps the name.\<close>

record ec2_platform_data =
  name :: string
  topology :: "string option"
  default_dup_conns :: int
  latency :: real
  gdr_required :: bool
  net_flush_required :: bool
  default_protocol :: string
  pd_domain_per_thread :: int

definition platform_data_map :: "ec2_platform_data list" where
  "platform_data_map =
    [\<lparr>name = ''p4d.24xlarge'', topology = Some ''p4d-24xl-topo.xml'', default_dup_conns = 0,
      latency = 75, gdr_required = True, net_flush_required = True,
      default_protocol = ''SENDRECV'', pd_domain_per_thread = 0\<rparr>,
     \<lparr>name = ''p4de.24xlarge'', topology = Some ''p4de-24xl-topo.xml'', default_dup_conns = 0,
      latency = 75, gdr_required = True, net_flush_required = True,
      default_protocol = ''SENDRECV'', pd_domain_per_thread = 0\<rparr>,
     \<lparr>name = ''p3dn.24xlarge'', topology = None, default_dup_conns = 4,
      latency = 150, gdr_required = False, net_flush_required = True,
      default_protocol = ''SENDRECV'', pd_domain_per_thread = 0\<rparr>,
     \<lparr>name = ''p5.48xlarge'', topology = Some ''p5.48xl-topo.xml'', default_dup_conns = 0,
      latency = 75, gdr_required = True, net_flush_required = False,
      default_protocol = ''RDMA'', pd_domain_per_thread = 0\<rparr>,
     \<lparr>name = ''g5.48xlarge'', topology = Some ''g5.48xl-topo.xml'', default_dup_conns = 0,
      latency = 0, gdr_required = False, net_flush_required = True,
      default_protocol = ''SENDRECV'', pd_domain_per_thread = 0\<rparr>,
     \<lparr>name = ''trn1.32xlarge'', topology = None, default_dup_conns = 0,
      latency = 0, gdr_required = True, net_flush_required = True,
      default_protocol = ''SENDRECV'', pd_domain_per_thread = 1\<rparr>,
     \<lparr>name = ''trn1n.32xlarge'', topology = None, default_dup_conns = 0,
      latency = 0, gdr_required = True, net_flush_required = True,
      default_protocol = ''SENDRECV'', pd_domain_per_thread = 1\<rparr>]"

section \<open>Process state and host\<close>

datatype gdr_support = GDR_UNKNOWN | GDR_SUPPORTED | GDR_UNSUPPORTED

text \<open>The mutable state of the process that the file reads or writes: the function-local
  statics of \<^verbatim>\<open>get_platform_type\<close> (\<open>init_type\<close>, \<open>platform_type\<close>), of \<^verbatim>\<open>get_platform_data\<close>
  (\<open>init_data\<close>, \<open>platform_data\<close>) and of \<^verbatim>\<open>platform_config_endpoint\<close>
  (\<open>nccl_proto_configured\<close>, \<open>need_ordering\<close>), the environment, and the plugin's globals.
  The mutexes are left out: the model runs one call at a time.\<close>

record plugin =
  init_type :: bool
  platform_type :: "string option"
  init_data :: bool
  platform_data :: "ec2_platform_data option"
  nccl_proto_configured :: bool
  need_ordering :: bool
  environ :: "string \<Rightarrow> string option"
  nic_dup_conns :: int
  net_latency :: real
  nccl_ofi_selected_protocol :: "string option"
  domain_per_thread :: int
  support_gdr :: gdr_support

datatype optname =
    FI_OPT_EFA_SENDRECV_IN_ORDER_ALIGNED_128_BYTES
  | FI_OPT_EFA_WRITE_IN_ORDER_ALIGNED_128_BYTES

text \<open>What surrounds a call: the file system, the answers of libc and Libfabric, the
  parameters of the plugin (\<^verbatim>\<open>ofi_nccl_...()\<close>, declared in a header that is not part of the
  file) and the build configuration (the \<^verbatim>\<open>HAVE_...\<close> macros, \<^verbatim>\<open>XML_DIR\<close>).
  \<open>setenv_errno\<close> is 0 for a variable that \<^verbatim>\<open>setenv\<close> can set and the \<^verbatim>\<open>errno\<close> of the failure
  otherwise; \<open>nccl_get_version\<close> is \<open>None\<close> when \<^verbatim>\<open>dlsym\<close> finds no \<^verbatim>\<open>ncclGetVersion\<close>, and else
  the result code and the version the function reports.\<close>

record host =
  files :: filesystem
  malloc_ok :: bool
  setenv_errno :: "string \<Rightarrow> int"
  fi_getopt_emulated_write :: "int \<times> nat \<times> bool"
  fi_setopt_inorder :: "optname \<Rightarrow> int"
  fi_setopt_max_msg_size :: int
  fi_version :: "nat \<times> nat"
  nccl_get_version :: "(int \<times> int) option"
  ofi_nccl_disable_gdr_required_check :: int
  ofi_nccl_disable_native_rdma_check :: int
  ofi_nccl_net_latency :: int
  ofi_nccl_protocol :: "string option"
  ofi_nccl_domain_per_thread :: int
  have_cuda :: bool
  have_decl_emulated_write :: bool
  have_decl_sendrecv_in_order :: bool
  have_decl_write_in_order :: bool
  have_decl_max_msg_size :: bool
  xml_dir :: string

section \<open>Platform identity\<close>

definition product_name_file :: string where
  "product_name_file = ''/sys/devices/virtual/dmi/id/product_name''"

text \<open>The loop of \<^verbatim>\<open>get_platform_type\<close>:
  \<^verbatim>\<open>while (feof(fd) == 0 && ferror(fd) == 0 && (ch = fgetc(fd)) != '\n') platform_type[len++] = ch;\<close>
  The end-of-file and error indicators are set by the \<^verbatim>\<open>fgetc\<close> that fails, not before it,
  so that call's result \<^verbatim>\<open>EOF\<close>, converted to \<^verbatim>\<open>char\<close> (the byte \<^verbatim>\<open>0xFF\<close>), is compared with the
  newline and stored before the loop ends. The result is the bytes stored and whether
  \<^verbatim>\<open>ferror\<close> holds at the end. (\<^verbatim>\<open>realloc\<close> is taken to succeed; the code does not test it.)\<close>

fun read_first_line :: "string \<Rightarrow> stream_end \<Rightarrow> string \<times> bool" where
  "read_first_line [] e = ([CHR 0xFF], e = IO_Error)"
| "read_first_line (c # cs) e =
     (if c = newline then ([], False)
      else (let (line, err) = read_first_line cs e in (c # line, err)))"

text \<open>\<^verbatim>\<open>get_platform_type\<close>: the result and the state after the call. The label \<^verbatim>\<open>error\<close> leaves
  \<^verbatim>\<open>platform_type\<close> \<^verbatim>\<open>NULL\<close>.\<close>

definition get_platform_type :: "host \<Rightarrow> plugin \<Rightarrow> string option \<times> plugin" where
  "get_platform_type hst st =
     (if init_type st then (platform_type st, st)
      else (let st1 = st\<lparr>init_type := True\<rparr>;
                failed = st1\<lparr>platform_type := None\<rparr>
            in case files hst product_name_file of
                 Absent \<Rightarrow> (None, failed)
               | Present cs e \<Rightarrow>
                   if \<not> malloc_ok hst then (None, failed)
                   else (let (buf, err) = read_first_line cs e
                         in if err then (None, failed)
                            else (Some (c_str buf), st1\<lparr>platform_type := Some (c_str buf)\<rparr>))))"

section \<open>Catalog lookup\<close>

text \<open>The loop of \<^verbatim>\<open>get_platform_data\<close> over a table: every entry is compared (the loop has
  no \<^verbatim>\<open>break\<close>), and a match overwrites \<^verbatim>\<open>platform_data\<close>. Names and the platform type are C
  strings, so \<^verbatim>\<open>strcmp(a, b) == 0\<close> is equality.\<close>

fun scan_platform_data ::
  "ec2_platform_data list \<Rightarrow> string \<Rightarrow> ec2_platform_data option \<Rightarrow> ec2_platform_data option"
where
  "scan_platform_data [] ptype found = found"
| "scan_platform_data (e # es) ptype found =
     scan_platform_data es ptype (if ptype = name e then Some e else found)"

definition get_platform_data_in ::
  "ec2_platform_data list \<Rightarrow> host \<Rightarrow> plugin \<Rightarrow> ec2_platform_data option \<times> plugin"
where
  "get_platform_data_in table hst st =
     (if init_data st then (platform_data st, st)
      else (let (ptype, st1) = get_platform_type hst (st\<lparr>init_data := True\<rparr>)
            in case ptype of
                 None \<Rightarrow> (None, st1)
               | Some t \<Rightarrow>
                   (let found = scan_platform_data table t (platform_data st1)
                    in (found, st1\<lparr>platform_data := found\<rparr>))))"

definition get_platform_data :: "host \<Rightarrow> plugin \<Rightarrow> ec2_platform_data option \<times> plugin" where
  "get_platform_data = get_platform_data_in platform_data_map"

text \<open>The state of a process that has called nothing yet, for given globals.\<close>

definition fresh_plugin :: plugin where
  "fresh_plugin =
     \<lparr>init_type = False, platform_type = None, init_data = False, platform_data = None,
      nccl_proto_configured = False, need_ordering = False, environ = (\<lambda>_. None),
      nic_dup_conns = 0, net_latency = 0, nccl_ofi_selected_protocol = None,
      domain_per_thread = 0, support_gdr = GDR_UNKNOWN\<rparr>"

text \<open>A host whose only file is the product name file with the given bytes, built with
  CUDA and every Libfabric option declared; every call into the transport succeeds.\<close>

definition example_host :: "string \<Rightarrow> host" where
  "example_host product =
     \<lparr>files = (\<lambda>p. if p = product_name_file then Present product At_EOF else Absent),
      malloc_ok = True, setenv_errno = (\<lambda>_. 0),
      fi_getopt_emulated_write = (0, 1, False), fi_setopt_inorder = (\<lambda>_. 0),
      fi_setopt_max_msg_size = 0, fi_version = (1, 18), nccl_get_version = Some (0, 22000),
      ofi_nccl_disable_gdr_required_check = 0, ofi_nccl_disable_native_rdma_check = 0,
      ofi_nccl_net_latency = - 1, ofi_nccl_protocol = None, ofi_nccl_domain_per_thread = - 1,
      have_cuda = True, have_decl_emulated_write = True, have_decl_sendrecv_in_order = True,
      have_decl_write_in_order = True, have_decl_max_msg_size = True,
      xml_dir = ''/usr/share/aws-ofi-nccl/xml''\<rparr>"

section \<open>Endpoint configuration\<close>

text \<open>\<^verbatim>\<open>setenv(name, value, overwrite)\<close>: the return value and the environment after it.\<close>

definition setenv ::
  "host \<Rightarrow> (string \<Rightarrow> string option) \<Rightarrow> string \<Rightarrow> string \<Rightarrow> int \<Rightarrow> int \<times> (string \<Rightarrow> string option)"
where
  "setenv hst env var val overwrite =
     (if setenv_errno hst var \<noteq> 0 then (- 1, env)
      else if overwrite = 0 \<and> env var \<noteq> None then (0, env)
      else (0, env(var \<mapsto> val)))"

text \<open>The calls a run makes on the endpoint, in order.\<close>

datatype ep_op =
    Getopt_Emulated_Write
  | Setopt_In_Order optname
  | Setopt_Max_Msg_Size

text \<open>Where a call of \<^verbatim>\<open>platform_config_endpoint\<close> returns: one constructor for each
  \<^verbatim>\<open>goto\<close> of the function with its warning, and \<open>Configured\<close> for the end of the function.\<close>

datatype ep_exit =
    Invalid_Endpoint
  | Not_Efa
  | Gdr_Disabled
  | Rdma_Write_Check
  | Unknown_Transport
  | In_Order_Failure
  | Ordering_Mismatch
  | Nccl_Proto_Failure
  | Max_Msg_Size_Failure
  | Configured

text \<open>The result of a call: the value returned and the place, or the dereference of a
  \<^verbatim>\<open>NULL\<close> string (\<^verbatim>\<open>strcasecmp\<close> on an unset protocol, \<^verbatim>\<open>strcmp\<close> on an unknown platform
  type), where the process stops.\<close>

datatype ep_result = Returned int ep_exit | Null_Dereference

text \<open>\<^verbatim>\<open>validate_rdma_write\<close>; \<^verbatim>\<open>sizeof(bool)\<close> is 1.\<close>

definition validate_rdma_write :: "host \<Rightarrow> int" where
  "validate_rdma_write hst =
     (if have_decl_emulated_write hst
      then (let (r, optlen, optval) = fi_getopt_emulated_write hst
            in if r \<noteq> 0 then r
               else if optlen \<noteq> 1 then - EINVAL
               else if optval then - EINVAL
               else 0)
      else - EINVAL)"

text \<open>\<^verbatim>\<open>configure_nccl_proto\<close>; a value of \<^verbatim>\<open>NCCL_PROTO\<close> other than \<^verbatim>\<open>simple\<close> is only warned
  about.\<close>

definition configure_nccl_proto ::
  "host \<Rightarrow> (string \<Rightarrow> string option) \<Rightarrow> int \<times> (string \<Rightarrow> string option)"
where
  "configure_nccl_proto hst env =
     (if env ''NCCL_PROTO'' = None
      then (let (r, env') = setenv hst env ''NCCL_PROTO'' ''simple'' 0
            in if r \<noteq> 0 then (- setenv_errno hst ''NCCL_PROTO'', env') else (0, env'))
      else (0, env))"

text \<open>\<^verbatim>\<open>configure_ep_inorder\<close>: the return value and \<^verbatim>\<open>have_ordering\<close>.\<close>

definition configure_ep_inorder :: "host \<Rightarrow> optname \<Rightarrow> int \<times> bool" where
  "configure_ep_inorder hst opt =
     (if have_decl_write_in_order hst
      then (let r = fi_setopt_inorder hst opt
            in if r = - FI_EOPNOTSUPP \<or> r = - FI_ENOPROTOOPT then (0, False)
               else if r \<noteq> 0 then (r, False)
               else (0, True))
      else (0, False))"

definition configure_ep_max_msg_size :: "host \<Rightarrow> int" where
  "configure_ep_max_msg_size hst =
     (if have_decl_max_msg_size hst
      then (let r = fi_setopt_max_msg_size hst
            in if r = - FI_EOPNOTSUPP \<or> r = - FI_ENOPROTOOPT then 0 else r)
      else 0)"

type_synonym ep_return = "ep_result \<times> plugin \<times> ep_op list"

text \<open>The function up to the point where it takes its mutex: the endpoint check, the
  provider check, the GDR check, the validation of native RDMA writes and, in a CUDA build,
  the choice of the option name. \<open>Inl\<close> is a return from this part; \<open>Inr\<close> carries the
  protocol, the option name (\<open>None\<close> for \<open>-1\<close>), the state and the calls made so far into
  the locked part.\<close>

definition ep_before_lock ::
  "host \<Rightarrow> fi_info \<Rightarrow> nat option \<Rightarrow> plugin
     \<Rightarrow> ep_return + (string \<times> optname option \<times> plugin \<times> ep_op list)"
where
  "ep_before_lock hst info endpoint st =
     (if endpoint = None then Inl (Returned (- EINVAL) Invalid_Endpoint, st, [])
      else if prov_name info \<noteq> ''efa'' then Inl (Returned 0 Not_Efa, st, [])
      else (let (gdr_missing, st1) =
                  (if ofi_nccl_disable_gdr_required_check hst = 0
                   then (let (pd, s) = get_platform_data hst st
                         in (case pd of
                               None \<Rightarrow> False
                             | Some d \<Rightarrow> gdr_required d \<and> support_gdr s \<noteq> GDR_SUPPORTED, s))
                   else (False, st))
            in if gdr_missing then Inl (Returned (- EINVAL) Gdr_Disabled, st1, [])
               else (case nccl_ofi_selected_protocol st1 of
                       None \<Rightarrow> Inl (Null_Dereference, st1, [])
                     | Some proto \<Rightarrow>
                         (let check = (strcasecmp_eq ''RDMA'' proto \<and>
                                       ofi_nccl_disable_native_rdma_check hst = 0);
                              r = (if check then validate_rdma_write hst else 0);
                              ops = (if check \<and> have_decl_emulated_write hst
                                     then [Getopt_Emulated_Write] else [])
                          in if r \<noteq> 0 then Inl (Returned r Rdma_Write_Check, st1, ops)
                             else if \<not> have_cuda hst then Inl (Returned 0 Configured, st1, ops)
                             else if strcasecmp_eq ''SENDRECV'' proto
                             then Inr (proto,
                                       if have_decl_sendrecv_in_order hst
                                       then Some FI_OPT_EFA_SENDRECV_IN_ORDER_ALIGNED_128_BYTES
                                       else None, st1, ops)
                             else if strcasecmp_eq ''RDMA'' proto
                             then Inr (proto,
                                       if have_decl_write_in_order hst
                                       then Some FI_OPT_EFA_WRITE_IN_ORDER_ALIGNED_128_BYTES
                                       else None, st1, ops)
                             else Inl (Returned (- EINVAL) Unknown_Transport, st1, ops)))))"

text \<open>The end of the locked part: the maximum message size, for the RDMA protocol.\<close>

definition ep_max_msg :: "host \<Rightarrow> string \<Rightarrow> plugin \<Rightarrow> ep_op list \<Rightarrow> ep_return" where
  "ep_max_msg hst proto st ops =
     (if strcasecmp_eq ''RDMA'' proto
      then (let r = configure_ep_max_msg_size hst;
                ops' = ops @ (if have_decl_max_msg_size hst then [Setopt_Max_Msg_Size] else [])
            in if r \<noteq> 0 then (Returned r Max_Msg_Size_Failure, st, ops')
               else (Returned 0 Configured, st, ops'))
      else (Returned 0 Configured, st, ops))"

text \<open>The attempt of the locked part, \<^verbatim>\<open>if (optname != -1) configure_ep_inorder(...)\<close>: the
  return value, \<^verbatim>\<open>have_ordering\<close>, and the call it makes on the endpoint.\<close>

definition in_order_attempt :: "host \<Rightarrow> optname option \<Rightarrow> (int \<times> bool) \<times> ep_op list" where
  "in_order_attempt hst opt =
     (case opt of
        None \<Rightarrow> ((0, False), [])
      | Some on \<Rightarrow>
          (configure_ep_inorder hst on,
           if have_decl_write_in_order hst then [Setopt_In_Order on] else []))"

text \<open>The locked part: the P5 workaround, then the negotiation of the ordering.\<close>

definition ep_locked ::
  "host \<Rightarrow> string \<Rightarrow> optname option \<Rightarrow> plugin \<Rightarrow> ep_op list \<Rightarrow> ep_return"
where
  "ep_locked hst proto opt st ops =
     (let p5_asked = (environ st ''NCCL_PROTO'' = None \<and> strcasecmp_eq ''RDMA'' proto);
          (ptype, st1) = (if p5_asked then get_platform_type hst st else (None, st))
      in if p5_asked \<and> ptype = None then (Null_Dereference, st1, ops)
         else (let st2 = (if p5_asked \<and> ptype = Some ''p5.48xlarge'' \<and>
                             \<not> nccl_proto_configured st1
                          then st1\<lparr>need_ordering := False, nccl_proto_configured := True\<rparr>
                          else st1)
               in if need_ordering st2 \<or> \<not> nccl_proto_configured st2
                  then (let ((r, have_ordering), tried) = in_order_attempt hst opt;
                            ops2 = ops @ tried
                        in if r \<noteq> 0 then (Returned r In_Order_Failure, st2, ops2)
                           else if need_ordering st2 \<and> \<not> have_ordering
                           then (Returned (- ENOTSUP) Ordering_Mismatch, st2, ops2)
                           else if \<not> nccl_proto_configured st2
                           then (let st3 = st2\<lparr>need_ordering := have_ordering,
                                                 nccl_proto_configured := True\<rparr>
                                 in if \<not> have_ordering
                                    then (let (rp, env') = configure_nccl_proto hst (environ st3);
                                              st4 = st3\<lparr>environ := env'\<rparr>
                                          in if rp \<noteq> 0
                                             then (Returned (- ENOTSUP) Nccl_Proto_Failure, st4, ops2)
                                             else ep_max_msg hst proto st4 ops2)
                                    else ep_max_msg hst proto st3 ops2)
                           else ep_max_msg hst proto st2 ops2)
                  else ep_max_msg hst proto st2 ops))"

definition platform_config_endpoint :: "host \<Rightarrow> fi_info \<Rightarrow> nat option \<Rightarrow> plugin \<Rightarrow> ep_return" where
  "platform_config_endpoint hst info endpoint st =
     (case ep_before_lock hst info endpoint st of
        Inl early \<Rightarrow> early
      | Inr (proto, opt, st1, ops) \<Rightarrow> ep_locked hst proto opt st1 ops)"

text \<open>A sequence of calls on one process: each call has its own host, descriptor and
  endpoint. A dereference of \<^verbatim>\<open>NULL\<close> ends the process, and the sequence with it.\<close>

fun config_endpoints ::
  "(host \<times> fi_info \<times> nat option) list \<Rightarrow> plugin \<Rightarrow> (ep_result \<times> ep_op list) list \<times> plugin"
where
  "config_endpoints [] st = ([], st)"
| "config_endpoints ((hst, info, endpoint) # calls) st =
     (let (res, st1, ops) = platform_config_endpoint hst info endpoint st
      in if res = Null_Dereference then ([(res, ops)], st1)
         else (let (rs, st2) = config_endpoints calls st1 in ((res, ops) # rs, st2)))"

definition efa_info :: fi_info where
  "efa_info = \<lparr>prov_name = ''efa'', device_name = ''rdmap0'', nxt = None\<rparr>"

section \<open>Platform initialization\<close>

text \<open>A step of \<^verbatim>\<open>platform_init\<close> either goes on with a new state or leaves through
  \<^verbatim>\<open>goto exit\<close> with the value of \<^verbatim>\<open>ret\<close>; what it changed before stays changed.\<close>

datatype init_step = Goto_Exit int plugin | Next plugin

fun then_step :: "init_step \<Rightarrow> (plugin \<Rightarrow> init_step) \<Rightarrow> init_step" where
  "then_step (Goto_Exit r st) f = Goto_Exit r st"
| "then_step (Next st) f = f st"

text \<open>A \<^verbatim>\<open>setenv\<close> whose failure leaves with \<^verbatim>\<open>-errno\<close>.\<close>

definition setenv_step :: "host \<Rightarrow> string \<Rightarrow> string \<Rightarrow> int \<Rightarrow> plugin \<Rightarrow> init_step" where
  "setenv_step hst var val overwrite st =
     (let (r, env') = setenv hst (environ st) var val overwrite
      in if r \<noteq> 0 then Goto_Exit (- setenv_errno hst var) (st\<lparr>environ := env'\<rparr>)
         else Next (st\<lparr>environ := env'\<rparr>))"

definition fork_safe_var_name :: "host \<Rightarrow> string" where
  "fork_safe_var_name hst =
     (let (major, minor) = fi_version hst
      in if major > 1 \<or> (major = 1 \<and> minor \<ge> 13) then ''FI_EFA_FORK_SAFE''
         else ''RDMAV_FORK_SAFE'')"

definition fork_safe_step :: "host \<Rightarrow> plugin \<Rightarrow> init_step" where
  "fork_safe_step hst st =
     (if environ st (fork_safe_var_name hst) = None
      then setenv_step hst (fork_safe_var_name hst) ''1'' 1 st
      else Next st)"

text \<open>\<^verbatim>\<open>configure_nvls_option\<close>, and the step around it: \<^verbatim>\<open>ncclSuccess\<close> is 0.\<close>

definition configure_nvls_option :: "host \<Rightarrow> plugin \<Rightarrow> init_step" where
  "configure_nvls_option hst st =
     (if environ st ''NCCL_NVLS_ENABLE'' = None
      then (case nccl_get_version hst of
              None \<Rightarrow> Next st
            | Some (nccl_ret, version) \<Rightarrow>
                if nccl_ret \<noteq> 0 then Goto_Exit (- ENOTSUP) st
                else if version < 21805 then setenv_step hst ''NCCL_NVLS_ENABLE'' ''0'' 1 st
                else Next st)
      else Next st)"

definition force_flush_step :: "host \<Rightarrow> ec2_platform_data option \<Rightarrow> plugin \<Rightarrow> init_step" where
  "force_flush_step hst pd st =
     (if (case pd of None \<Rightarrow> False | Some d \<Rightarrow> \<not> net_flush_required d) \<and>
         environ st ''NCCL_NET_FORCE_FLUSH'' = None
      then setenv_step hst ''NCCL_NET_FORCE_FLUSH'' ''0'' 0 st
      else Next st)"

text \<open>The part of the function under \<^verbatim>\<open>#if HAVE_CUDA\<close>.\<close>

definition cuda_steps :: "host \<Rightarrow> ec2_platform_data option \<Rightarrow> plugin \<Rightarrow> init_step" where
  "cuda_steps hst pd st =
     (if have_cuda hst
      then then_step (then_step (then_step (then_step (fork_safe_step hst st)
             (configure_nvls_option hst))
             (force_flush_step hst pd))
             (setenv_step hst ''NCCL_NVLSTREE_MAX_CHUNKSIZE'' ''524288'' 0))
             (setenv_step hst ''NCCL_NVLS_CHUNKSIZE'' ''524288'' 0)
      else Next st)"

definition PATH_MAX :: nat where "PATH_MAX = 4096"

text \<open>The topology file. Both log lines call \<^verbatim>\<open>get_platform_type\<close> for their argument.\<close>

definition topology_step :: "host \<Rightarrow> ec2_platform_data option \<Rightarrow> plugin \<Rightarrow> init_step" where
  "topology_step hst pd st =
     (if environ st ''NCCL_TOPO_FILE'' \<noteq> None then Next (snd (get_platform_type hst st))
      else (case (case pd of None \<Rightarrow> None | Some d \<Rightarrow> topology d) of
              None \<Rightarrow> Next st
            | Some topo \<Rightarrow>
                (let topology_path = xml_dir hst @ ''/'' @ topo
                 in if length topology_path \<ge> PATH_MAX then Goto_Exit (- ENOMEM) st
                    else setenv_step hst ''NCCL_TOPO_FILE'' topology_path 1
                           (snd (get_platform_type hst st)))))"

text \<open>The assignments to the globals, which cannot fail.\<close>

definition tunables_step ::
  "host \<Rightarrow> ec2_platform_data option \<Rightarrow> bool \<Rightarrow> plugin \<Rightarrow> plugin"
where
  "tunables_step hst pd select_efa st =
     (let st1 = (case pd of
                   Some d \<Rightarrow> if nic_dup_conns st = 0
                             then st\<lparr>nic_dup_conns := default_dup_conns d\<rparr> else st
                 | None \<Rightarrow> st);
          st2 = (if ofi_nccl_net_latency hst < 0
                 then (case pd of
                         Some d \<Rightarrow> if latency d \<ge> 0 then st1\<lparr>net_latency := latency d\<rparr>
                                   else st1\<lparr>net_latency := 150\<rparr>
                       | None \<Rightarrow> st1\<lparr>net_latency := 150\<rparr>)
                 else st1);
          st3 = (case pd of
                   Some d \<Rightarrow> if select_efa \<and> ofi_nccl_protocol hst = None
                             then st2\<lparr>nccl_ofi_selected_protocol := Some (default_protocol d)\<rparr>
                             else st2
                 | None \<Rightarrow> st2);
          st4 = st3\<lparr>domain_per_thread := ofi_nccl_domain_per_thread hst\<rparr>
      in if domain_per_thread st4 = - 1
         then (case pd of
                 Some d \<Rightarrow> st4\<lparr>domain_per_thread := pd_domain_per_thread d\<rparr>
               | None \<Rightarrow> st4\<lparr>domain_per_thread := 0\<rparr>)
         else st4)"

text \<open>\<^verbatim>\<open>platform_init\<close>: the return value, the caller's \<^verbatim>\<open>*provider_filter\<close> and the state.\<close>

definition platform_init :: "host \<Rightarrow> string option \<Rightarrow> plugin \<Rightarrow> int \<times> string option \<times> plugin" where
  "platform_init hst provider_filter st =
     (let (pd, st1) = get_platform_data hst st;
          fi_provider = environ st1 ''FI_PROVIDER'';
          provider_filter' = (if fi_provider = None then Some ''efa'' else provider_filter);
          select_efa = (fi_provider = None \<or> fi_provider = Some ''efa'')
      in case then_step (cuda_steps hst pd st1) (topology_step hst pd) of
           Goto_Exit r st2 \<Rightarrow> (r, provider_filter', st2)
         | Next st2 \<Rightarrow> (0, provider_filter', tunables_step hst pd select_efa st2))"

text \<open>Whether a call reaches the locked part, and with which protocol and option name.\<close>

definition ep_reaches_lock ::
  "host \<Rightarrow> fi_info \<Rightarrow> nat option \<Rightarrow> plugin \<Rightarrow> (string \<times> optname option) option"
where
  "ep_reaches_lock hst info endpoint st =
     (case ep_before_lock hst info endpoint st of
        Inl early \<Rightarrow> None
      | Inr (proto, opt, st1, ops) \<Rightarrow> Some (proto, opt))"

text \<open>The state in which an \<open>init_step\<close> leaves the process.\<close>

fun step_state :: "init_step \<Rightarrow> plugin" where
  "step_state (Goto_Exit r st) = st"
| "step_state (Next st) = st"

section \<open>Example hosts and processes\<close>

definition p4d_host :: host where
  "p4d_host = example_host (''p4d.24xlarge'' @ [newline])"

definition p5_host :: host where
  "p5_host = example_host (''p5.48xlarge'' @ [newline])"

definition p3dn_host :: host where
  "p3dn_host = example_host (''p3dn.24xlarge'' @ [newline])"

definition trn1_host :: host where
  "trn1_host = example_host (''trn1.32xlarge'' @ [newline])"

text \<open>A host on which Libfabric does not support the in-order options.\<close>

definition unsupported_host :: host where
  "unsupported_host = p4d_host\<lparr>fi_setopt_inorder := (\<lambda>_. - FI_EOPNOTSUPP)\<rparr>"

text \<open>A process that has chosen a protocol and found GDR support, before its first
  endpoint.\<close>

definition first_call_plugin :: "string \<Rightarrow> plugin" where
  "first_call_plugin proto =
     fresh_plugin\<lparr>nccl_ofi_selected_protocol := Some proto, support_gdr := GDR_SUPPORTED\<rparr>"

text \<open>The process after a first endpoint on which the in-order option could be set.\<close>

definition ordered_plugin :: plugin where
  "ordered_plugin =
     fst (snd (platform_config_endpoint p4d_host efa_info (Some 1) (first_call_plugin ''SENDRECV'')))"

text \<open>A table in which two entries have the same name.\<close>

definition duplicate_table :: "ec2_platform_data list" where
  "duplicate_table =
     [platform_data_map ! 3, platform_data_map ! 0, (platform_data_map ! 3)\<lparr>latency := 150\<rparr>]"

text \<open>A user who has set every variable and parameter that \<^verbatim>\<open>platform_init\<close> looks at.\<close>

definition user_environ :: "string \<Rightarrow> string option" where
  "user_environ =
     [''FI_PROVIDER'' \<mapsto> ''tcp'', ''FI_EFA_FORK_SAFE'' \<mapsto> ''0'', ''NCCL_NVLS_ENABLE'' \<mapsto> ''1'',
      ''NCCL_NET_FORCE_FLUSH'' \<mapsto> ''1'', ''NCCL_NVLSTREE_MAX_CHUNKSIZE'' \<mapsto> ''65536'',
      ''NCCL_NVLS_CHUNKSIZE'' \<mapsto> ''65536'', ''NCCL_TOPO_FILE'' \<mapsto> ''/tmp/topo.xml'']"

definition user_plugin :: plugin where
  "user_plugin =
     fresh_plugin\<lparr>environ := user_environ, nic_dup_conns := 2, net_latency := 30,
                  nccl_ofi_selected_protocol := Some ''SENDRECV''\<rparr>"

definition user_host :: host where
  "user_host =
     p5_host\<lparr>ofi_nccl_net_latency := 30, ofi_nccl_protocol := Some ''SENDRECV'',
              ofi_nccl_domain_per_thread := 1\<rparr>"

text \<open>What a step of the initialization must keep: every variable of the environment
  that has a value, and the globals.\<close>

definition kept :: "plugin \<Rightarrow> plugin \<Rightarrow> bool" where
  "kept st st' =
     ((\<forall>var val. environ st var = Some val \<longrightarrow> environ st' var = Some val) \<and>
      nic_dup_conns st' = nic_dup_conns st \<and> net_latency st' = net_latency st \<and>
      nccl_ofi_selected_protocol st' = nccl_ofi_selected_protocol st \<and>
      domain_per_thread st' = domain_per_thread st)"

section \<open>Properties of the virtual function index\<close>

lemma takeWhile_drop:
  "n \<le> length (takeWhile P xs) \<Longrightarrow> takeWhile P (drop n xs) = drop n (takeWhile P xs)"
proof (induction xs arbitrary: n)
  case Nil
  then show ?case by simp
next
  case (Cons x xs)
  then show ?case by (cases n) (auto split: if_splits)
qed

lemma take2_drop:
  assumes "n + 2 \<le> length xs"
  shows "take 2 (drop n xs) = [xs ! n, xs ! Suc n]"
proof -
  have a: "drop n xs = xs ! n # drop (Suc n) xs"
    using assms by (simp add: Cons_nth_drop_Suc)
  have b: "drop (Suc n) xs = xs ! Suc n # drop (Suc (Suc n)) xs"
    using assms by (simp add: Cons_nth_drop_Suc)
  show ?thesis
    by (simp add: a b numeral_2_eq_2)
qed

text \<open>After the length check, \<^verbatim>\<open>guid + 17\<close> is the string of the last two characters.\<close>

lemma guid_tail:
  assumes "strlen guid = 19"
  shows "c_string_at guid 17 = [guid ! 17, guid ! 18]"
proof -
  let ?P = "\<lambda>c. c \<noteq> NUL"
  have len: "length (takeWhile ?P guid) = 19"
    using assms by (simp add: strlen_def c_str_def)
  have tk: "takeWhile ?P guid = take 19 guid"
    using takeWhile_eq_take [of ?P guid] len by simp
  have ge: "19 \<le> length guid"
    using len length_takeWhile_le [of ?P guid] by simp
  have "c_string_at guid 17 = drop 17 (take 19 guid)"
    using takeWhile_drop [of 17 ?P guid] len tk by (simp add: c_string_at_def c_str_def)
  also have "\<dots> = take 2 (drop 17 guid)"
    by (simp add: drop_take)
  also have "\<dots> = [guid ! 17, guid ! Suc 17]"
    using ge by (intro take2_drop) simp
  also have "\<dots> = [guid ! 17, guid ! 18]"
    by simp
  finally show ?thesis .
qed

lemma isdigit_range: "isdigit c \<Longrightarrow> 0 \<le> digit_val c \<and> digit_val c \<le> 9"
  by (auto simp: isdigit_def digit_val_def)

lemma strtol10_zero_digit:
  assumes "isdigit d"
  shows "strtol10 [CHR ''0'', d] = (digit_val d, 2)"
  using assms isdigit_range [OF assms]
  by (simp add: strtol10_def isspace_def isdigit_def digit_val_def long_clamp_def)

lemma int_cast_small: "0 \<le> v \<Longrightarrow> v \<le> 9 \<Longrightarrow> int_cast v = v"
  by (simp add: int_cast_def signed_take_bit_int_eq_self)

lemma hex_val_digit: "isdigit c \<Longrightarrow> hex_val c = digit_val c"
  by (simp add: hex_val_def digit_val_def)

text \<open>
  Claim C2, as amended. \<^verbatim>\<open>get_rail_vf_idx\<close> answers the format error \<^verbatim>\<open>-EINVAL\<close> for every
  string whose length is not 19 or whose character at index 14 is not a colon, so a string
  is accepted only if it has 19 characters and that colon. A string that passes both checks
  and ends in \<^verbatim>\<open>0\<close> followed by a decimal digit is accepted, whatever its first 14 and its
  15th and 16th characters are, and the result is the value of its last two hexadecimal
  digits, an integer in \<open>[0, 256)\<close>.
\<close>

theorem vf_idx_of_guid_checks:
  "(strlen guid \<noteq> 19 \<or> guid ! 14 \<noteq> CHR '':'' \<longrightarrow> vf_idx_of_guid guid = Vf_Error (- EINVAL)) \<and>
   (strlen guid = 19 \<and> guid ! 14 = CHR '':'' \<and> guid ! 17 = CHR ''0'' \<and> isdigit (guid ! 18) \<longrightarrow>
      vf_idx_of_guid guid = Vf_Idx (spec_slot guid) \<and> 0 \<le> spec_slot guid \<and> spec_slot guid < 256)"
proof (intro conjI impI)
  assume "strlen guid \<noteq> 19 \<or> guid ! 14 \<noteq> CHR '':''"
  then show "vf_idx_of_guid guid = Vf_Error (- EINVAL)"
    by (auto simp: vf_idx_of_guid_def)
next
  assume a: "strlen guid = 19 \<and> guid ! 14 = CHR '':'' \<and> guid ! 17 = CHR ''0'' \<and> isdigit (guid ! 18)"
  have slot: "spec_slot guid = digit_val (guid ! 18)"
    using a by (simp add: spec_slot_def hex_val_digit) (simp add: hex_val_def isdigit_def)
  have rng: "0 \<le> digit_val (guid ! 18) \<and> digit_val (guid ! 18) \<le> 9"
    using a isdigit_range by blast
  have tl: "c_string_at guid 17 = [CHR ''0'', guid ! 18]"
    using a guid_tail [of guid] by simp
  have "strtol10 (c_string_at guid 17) = (digit_val (guid ! 18), 2)"
    using a tl strtol10_zero_digit by simp
  then show "vf_idx_of_guid guid = Vf_Idx (spec_slot guid)"
    using a rng slot by (simp add: vf_idx_of_guid_def int_cast_small)
  show "0 \<le> spec_slot guid" using rng slot by simp
  show "spec_slot guid < 256" using rng slot by simp
qed

theorem vf_idx_of_guid_checks_witness:
  "strlen ''0000:0000'' \<noteq> 19 \<and>
   vf_idx_of_guid ''0000:0000'' = Vf_Error (- EINVAL) \<and>
   strlen ''0000:0000:0000:0001'' = 19 \<and> ''0000:0000:0000:0001'' ! 14 = CHR '':'' \<and>
   ''0000:0000:0000:0001'' ! 17 = CHR ''0'' \<and> isdigit (''0000:0000:0000:0001'' ! 18) \<and>
   vf_idx_of_guid ''0000:0000:0000:0001'' = Vf_Idx 1"
proof -
  have h1: "strlen ''0000:0000'' \<noteq> 19"
    by code_simp
  have h2: "strlen ''0000:0000:0000:0001'' = 19 \<and> ''0000:0000:0000:0001'' ! 14 = CHR '':'' \<and>
    ''0000:0000:0000:0001'' ! 17 = CHR ''0'' \<and> isdigit (''0000:0000:0000:0001'' ! 18)"
    by code_simp
  have s: "spec_slot ''0000:0000:0000:0001'' = 1"
    by code_simp
  show ?thesis
    using h1 h2 s vf_idx_of_guid_checks [of "''0000:0000''"]
      vf_idx_of_guid_checks [of "''0000:0000:0000:0001''"]
    by simp
qed

text \<open>Claim C2 as the specification states it fails: a string that is not four groups of
  hexadecimal digits joined by colons is accepted, with slot 1.\<close>

theorem vf_idx_of_guid_format_counterexample:
  "\<not> spec_guid_format ''GGGG.GGGG.GGGG:GG01'' \<and>
   vf_idx_of_guid ''GGGG.GGGG.GGGG:GG01'' = Vf_Idx 1"
  by code_simp

text \<open>The last two characters are read in base 10, although the comment in the source calls
  the identifier a hexadecimal number whose lowest 8 bits are the index: \<^verbatim>\<open>10\<close> gives 10 where
  the low byte is 16, and \<^verbatim>\<open>ff\<close> is refused.\<close>

lemma vf_idx_of_guid_base_10:
  "spec_guid_format ''0000:0000:0000:0010'' \<and> spec_slot ''0000:0000:0000:0010'' = 16 \<and>
   vf_idx_of_guid ''0000:0000:0000:0010'' = Vf_Idx 10 \<and>
   spec_guid_format ''0000:0000:0000:00ff'' \<and> spec_slot ''0000:0000:0000:00ff'' = 255 \<and>
   vf_idx_of_guid ''0000:0000:0000:00ff'' = Vf_Error (- EINVAL)"
  by code_simp

text \<open>The scenario of the specification: the identifier \<^verbatim>\<open>0000:0000:0000:0203\<close> gives slot 3,
  which the ordering refuses.\<close>

lemma vf_idx_of_guid_scenario:
  "get_rail_vf_idx (example_fs ''0000:0000:0000:0203'' [] [] []) (example_heap 1) = Vf_Idx 3 \<and>
   assign_rails (example_fs ''0000:0000:0000:0203'' [] [] []) example_heap 4 (Some 1) [0, 2]
     (replicate 4 None) = Failed (Invalid_Vf_Idx 3)"
  by code_simp

section \<open>Properties of the rail ordering\<close>

lemma assign_grouped:
  assumes "p = Some a" "nxt (h a) = Some b" "nxt (h b) = Some c" "nxt (h c) = Some d"
    and "vf_ret (get_rail_vf_idx fs (h a)) = 0" "vf_ret (get_rail_vf_idx fs (h b)) = 0"
    and "vf_ret (get_rail_vf_idx fs (h c)) = 1" "vf_ret (get_rail_vf_idx fs (h d)) = 1"
  shows "assign_rails fs h (Suc (Suc (Suc (Suc 0)))) p [0, 2] [None, None, None, None]
           = Assigned [Some a, Some b, Some c, Some d]"
  using assms by (simp add: Let_def)

lemma relink_grouped:
  assumes "distinct [a, b, c, d]"
  shows "relink [Some a, Some b, Some c, Some d] 4 [0, 1, 2, 3] (Some a) h
           = Some (h(a := (h a)\<lparr>nxt := Some b\<rparr>, b := (h b)\<lparr>nxt := Some c\<rparr>,
                     c := (h c)\<lparr>nxt := Some d\<rparr>, d := (h d)\<lparr>nxt := None\<rparr>))"
  using assms by (simp add: Let_def)

text \<open>
  Claim C1, as amended. For \<open>num_rails = 4\<close> and a list of four distinct descriptors whose
  slots are \<open>(0, 0, 1, 1)\<close> in discovery order, the call succeeds and the resulting list is a
  permutation of the input in which the two slot-0 descriptors occupy positions 0 and 1 and
  the two slot-1 descriptors positions 2 and 3, each pair in discovery order: the rails of a
  virtual function are grouped, not interleaved, and the order is the discovery order. The
  list ends after the fourth descriptor, and no other descriptor is written.
\<close>

theorem sort_rails_grouped:
  assumes "info_list st = Some a" "nxt (heap st a) = Some b" "nxt (heap st b) = Some c"
      "nxt (heap st c) = Some d" "distinct [a, b, c, d]"
    and "vf_ret (get_rail_vf_idx fs (heap st a)) = 0" "vf_ret (get_rail_vf_idx fs (heap st b)) = 0"
    and "vf_ret (get_rail_vf_idx fs (heap st c)) = 1" "vf_ret (get_rail_vf_idx fs (heap st d)) = 1"
  shows "\<exists>st'. platform_sort_rails fs st 4 = Some st' \<and>
           list_nodes (heap st') 5 (info_list st') = [a, b, c, d] \<and>
           mset (list_nodes (heap st') 5 (info_list st'))
             = mset (list_nodes (heap st) 4 (info_list st)) \<and>
           heap st' = (heap st)(d := (heap st d)\<lparr>nxt := None\<rparr>)"
proof -
  let ?h = "heap st"
  let ?h' = "?h(a := (?h a)\<lparr>nxt := Some b\<rparr>, b := (?h b)\<lparr>nxt := Some c\<rparr>,
                c := (?h c)\<lparr>nxt := Some d\<rparr>, d := (?h d)\<lparr>nxt := None\<rparr>)"
  have n4: "nat 4 = Suc (Suc (Suc (Suc 0)))" by simp
  have u: "[0..<Suc (Suc (Suc (Suc 0)))] = [0, 1, 2, 3]" by (simp add: upt_rec)
  have asg: "assign_rails fs ?h (Suc (Suc (Suc (Suc 0)))) (info_list st) [0, 2]
               [None, None, None, None] = Assigned [Some a, Some b, Some c, Some d]"
    using assms by (intro assign_grouped) auto
  have rl: "relink [Some a, Some b, Some c, Some d] (Suc (Suc (Suc (Suc 0)))) [0, 1, 2, 3]
              (Some a) ?h = Some ?h'"
    using relink_grouped [OF assms(5), of ?h] by (simp add: numeral_eq_Suc)
  have run: "platform_sort_rails fs st 4 = Some \<lparr>info_list = Some a, heap = ?h'\<rparr>"
    unfolding platform_sort_rails_def n4 using asg rl u by (simp add: Let_def)
  have heq: "?h' = ?h(d := (?h d)\<lparr>nxt := None\<rparr>)"
    using assms by (intro ext) auto
  have out: "list_nodes ?h' 5 (Some a) = [a, b, c, d]"
    using assms(5) by (simp add: numeral_eq_Suc)
  have inp: "list_nodes ?h 4 (info_list st) = [a, b, c, d]"
    using assms by (simp add: numeral_eq_Suc)
  show ?thesis
    using run heq out inp by simp
qed

lemma grouped_slots:
  "map (\<lambda>a. vf_ret (get_rail_vf_idx grouped_fs (example_heap a))) [1, 2, 3, 4] = [0, 0, 1, 1]"
  by code_simp

theorem sort_rails_grouped_witness:
  "\<exists>st'. platform_sort_rails grouped_fs example_rails 4 = Some st' \<and>
     list_nodes (heap st') 5 (info_list st') = [1, 2, 3, 4] \<and>
     mset (list_nodes (heap st') 5 (info_list st'))
       = mset (list_nodes (heap example_rails) 4 (info_list example_rails)) \<and>
     heap st' = (heap example_rails)(4 := (heap example_rails 4)\<lparr>nxt := None\<rparr>)"
proof -
  have links: "info_list example_rails = Some 1" "nxt (heap example_rails 1) = Some 2"
    "nxt (heap example_rails 2) = Some 3" "nxt (heap example_rails 3) = Some 4"
    by (simp_all add: example_rails_def example_heap_def)
  have d: "distinct [1, 2, 3, 4 :: nat]" by simp
  have slots: "vf_ret (get_rail_vf_idx grouped_fs (heap example_rails 1)) = 0"
    "vf_ret (get_rail_vf_idx grouped_fs (heap example_rails 2)) = 0"
    "vf_ret (get_rail_vf_idx grouped_fs (heap example_rails 3)) = 1"
    "vf_ret (get_rail_vf_idx grouped_fs (heap example_rails 4)) = 1"
    using grouped_slots by (simp_all add: example_rails_def)
  show ?thesis
    by (rule sort_rails_grouped [OF links d slots])
qed

text \<open>Claim C1 as the specification states it fails: on the four-rail host with slots
  \<open>(0, 0, 1, 1)\<close> the second slot-0 descriptor (address 2) is at output position 1 and the
  first slot-1 descriptor (address 3) at position 2; the interleaved order
  \<open>[1, 3, 2, 4]\<close> is not the result.\<close>

theorem sort_rails_interleaved_counterexample:
  "map (\<lambda>a. vf_ret (get_rail_vf_idx grouped_fs (example_heap a))) [1, 2, 3, 4] = [0, 0, 1, 1] \<and>
   map_option (\<lambda>st. list_nodes (heap st) 5 (info_list st))
     (platform_sort_rails grouped_fs example_rails 4) = Some [1, 2, 3, 4] \<and>
   map_option (\<lambda>st. list_nodes (heap st) 5 (info_list st))
     (platform_sort_rails grouped_fs example_rails 4) \<noteq> Some [1, 3, 2, 4]"
  by code_simp

text \<open>Why the first loop fails: the list ends early, a target position is taken, or
  \<^verbatim>\<open>get_rail_vf_idx\<close> returned a value outside \<open>[0, 2)\<close>, which is negative when the
  identifier file could not be read (\<^verbatim>\<open>-EIO\<close>) or has the wrong format (\<^verbatim>\<open>-EINVAL\<close>).\<close>

lemma assign_rails_failure_cases:
  "assign_rails fs h k p rail_map arr = Failed e \<Longrightarrow>
   e = List_Too_Short \<or> e = Duplicate_Slot \<or>
   (\<exists>v. e = Invalid_Vf_Idx v \<and> (v < 0 \<or> 2 \<le> v))"
proof (induction k arbitrary: p rail_map arr)
  case 0
  then show ?case by simp
next
  case (Suc k)
  then show ?case
    by (auto simp: Let_def split: option.splits if_splits)
qed

lemma unreadable_guid_file:
  assumes "fs (guid_file (device_name info)) = Absent \<or>
           (\<exists>cs e. fs (guid_file (device_name info)) = Present cs e \<and> fgets 20 cs e = None)"
  shows "vf_ret (get_rail_vf_idx fs info) = - EIO"
  using assms by (auto simp: get_rail_vf_idx_def)

lemma fgets_chars_exact:
  "newline \<notin> set g \<Longrightarrow> fgets_chars (length g) (g @ rest) = g"
  by (induction g) auto

text \<open>A file that starts with 19 bytes other than a newline is read as those 19 bytes.\<close>

lemma get_rail_vf_idx_reads_guid:
  assumes "fs (guid_file (device_name info)) = Present (g @ rest) e"
    and "length g = 19" "newline \<notin> set g"
  shows "get_rail_vf_idx fs info = vf_idx_of_guid g"
proof -
  have "fgets_chars 19 (g @ rest) = g"
    using fgets_chars_exact [OF assms(3), of rest] assms(2) by simp
  then show ?thesis
    using assms by (simp add: get_rail_vf_idx_def fgets_def)
qed

text \<open>
  Claim C4, as amended. Whenever the first loop of \<^verbatim>\<open>platform_sort_rails\<close> leaves through
  \<^verbatim>\<open>goto error\<close> (the list is shorter than \<open>num_rails\<close>; the identifier file cannot be read
  or fails the format check, so that the index is negative; the index is not in \<open>[0, 2)\<close>;
  the target position is occupied), the call returns with the caller's list as it was: the
  same head and the same heap of descriptors. The function returns nothing, so no error
  reaches the caller.
\<close>

theorem sort_rails_failure_atomic:
  assumes "assign_rails fs (heap st) (nat num_rails) (info_list st) [0, 2]
             (replicate (nat num_rails) None) = Failed e"
  shows "platform_sort_rails fs st num_rails = Some st \<and>
         (e = List_Too_Short \<or> e = Duplicate_Slot \<or>
          (\<exists>v. e = Invalid_Vf_Idx v \<and> (v < 0 \<or> 2 \<le> v)))"
  using assms assign_rails_failure_cases [OF assms]
  by (simp add: platform_sort_rails_def)

lemma malformed_fails:
  "assign_rails malformed_fs example_heap 4 (Some 1) [0, 2] (replicate 4 None)
     = Failed (Invalid_Vf_Idx (- 22))"
  by code_simp

theorem sort_rails_failure_atomic_witness:
  "assign_rails malformed_fs (heap example_rails) (nat 4) (info_list example_rails) [0, 2]
     (replicate (nat 4) None) = Failed (Invalid_Vf_Idx (- 22)) \<and>
   platform_sort_rails malformed_fs example_rails 4 = Some example_rails"
proof -
  have f: "assign_rails malformed_fs (heap example_rails) (nat 4) (info_list example_rails)
             [0, 2] (replicate (nat 4) None) = Failed (Invalid_Vf_Idx (- 22))"
    using malformed_fails by (simp add: example_rails_def)
  show ?thesis
    using f sort_rails_failure_atomic [OF f] by simp
qed

lemma grouped_assigned:
  "assign_rails grouped_fs example_heap 4 (Some 1) [0, 2] (replicate 4 None)
     = Assigned [Some 1, Some 2, Some 3, Some 4]"
  by code_simp

lemma grouped_unchanged:
  "platform_sort_rails grouped_fs example_rails 4 = Some example_rails"
proof -
  have u: "[0..<4] = [0, 1, 2, 3]" by code_simp
  have h: "example_heap
            (1 := (example_heap 1)\<lparr>nxt := Some 2\<rparr>,
             2 := (example_heap 2)\<lparr>nxt := Some 3\<rparr>,
             3 := (example_heap 3)\<lparr>nxt := Some 4\<rparr>,
             4 := (example_heap 4)\<lparr>nxt := None\<rparr>) = example_heap"
    by (rule ext) (simp add: example_heap_def)
  have r: "relink [Some 1, Some 2, Some 3, Some 4] 4 [0, 1, 2, 3] (Some 1) example_heap
             = Some example_heap"
    using h by (simp add: Let_def)
  show ?thesis
    using grouped_assigned r u by (simp add: platform_sort_rails_def example_rails_def)
qed

text \<open>Claim C4 as the specification states it fails: the run that stops on a malformed
  identifier and the run that sorts four well-formed rails hand the caller exactly the same
  result, so the failure is not propagated.\<close>

theorem sort_rails_error_not_propagated_counterexample:
  "assign_rails malformed_fs (heap example_rails) 4 (info_list example_rails) [0, 2]
     (replicate 4 None) = Failed (Invalid_Vf_Idx (- EINVAL)) \<and>
   assign_rails grouped_fs (heap example_rails) 4 (info_list example_rails) [0, 2]
     (replicate 4 None) = Assigned [Some 1, Some 2, Some 3, Some 4] \<and>
   platform_sort_rails malformed_fs example_rails 4
     = platform_sort_rails grouped_fs example_rails 4"
proof -
  have a: "platform_sort_rails malformed_fs example_rails 4 = Some example_rails"
    using malformed_fails by (simp add: platform_sort_rails_def example_rails_def)
  show ?thesis
    using a grouped_unchanged malformed_fails grouped_assigned
    by (simp add: example_rails_def EINVAL_def)
qed

section \<open>Properties of the platform identity and the catalog\<close>

lemma get_platform_type_cached:
  "init_type st \<Longrightarrow> get_platform_type hst st = (platform_type st, st)"
  by (simp add: get_platform_type_def)

lemma get_platform_type_caches:
  "init_type (snd (get_platform_type hst st)) \<and>
   platform_type (snd (get_platform_type hst st)) = fst (get_platform_type hst st)"
  by (simp add: get_platform_type_def Let_def split: host_file.splits prod.splits)

lemma get_platform_type_again:
  "get_platform_type hst' (snd (get_platform_type hst st))
     = (fst (get_platform_type hst st), snd (get_platform_type hst st))"
  using get_platform_type_caches [of hst st] get_platform_type_cached by simp

lemma read_first_line_terminated:
  "newline \<notin> set line \<Longrightarrow> read_first_line (line @ newline # rest) e = (line, False)"
  by (induction line) auto

lemma c_str_no_nul: "NUL \<notin> set s \<Longrightarrow> c_str s = s"
  by (auto simp: c_str_def takeWhile_eq_all_conv)

lemma get_platform_type_first_line:
  assumes "\<not> init_type st" "malloc_ok hst"
    and "files hst product_name_file = Present (line @ newline # rest) e"
    and "newline \<notin> set line" "NUL \<notin> set line"
  shows "fst (get_platform_type hst st) = Some line"
  using assms by (simp add: get_platform_type_def read_first_line_terminated c_str_no_nul)

lemma get_platform_type_open_failure:
  assumes "\<not> init_type st" "files hst product_name_file = Absent"
  shows "fst (get_platform_type hst st) = None"
  using assms by (simp add: get_platform_type_def)

text \<open>
  Claim C7. The caching part of the claim holds (the lemmas above). The cached value is not
  always the first line: when the file ends without a newline, the byte \<^verbatim>\<open>0xFF\<close> that the
  failed \<^verbatim>\<open>fgetc\<close> produced is stored after the line. For the file \<^verbatim>\<open>p5.48xlarge\<close> without a
  newline the function returns \<^verbatim>\<open>p5.48xlarge\<close> followed by \<^verbatim>\<open>0xFF\<close>, which no catalog entry
  matches; with the newline it returns \<^verbatim>\<open>p5.48xlarge\<close>.
\<close>

theorem get_platform_type_unterminated_line:
  "fst (get_platform_type (example_host ''p5.48xlarge'') fresh_plugin)
     = Some (''p5.48xlarge'' @ [CHR 0xFF]) \<and>
   fst (get_platform_data (example_host ''p5.48xlarge'') fresh_plugin) = None \<and>
   fst (get_platform_type (example_host (''p5.48xlarge'' @ [newline])) fresh_plugin)
     = Some ''p5.48xlarge''"
  by code_simp

lemma scan_platform_data_last:
  "scan_platform_data table t found =
     (case filter (\<lambda>e. name e = t) table of [] \<Rightarrow> found | m # ms \<Rightarrow> Some (last (m # ms)))"
proof (induction table arbitrary: found)
  case Nil
  then show ?case by simp
next
  case (Cons e es)
  then show ?case by (simp split: list.splits)
qed

lemma get_platform_data_in_cached:
  "init_data st \<Longrightarrow> get_platform_data_in table hst st = (platform_data st, st)"
  by (simp add: get_platform_data_in_def)

lemma get_platform_type_keeps_data:
  "init_data (snd (get_platform_type hst st)) = init_data st \<and>
   platform_data (snd (get_platform_type hst st)) = platform_data st"
  by (simp add: get_platform_type_def Let_def split: host_file.splits prod.splits)

lemma get_platform_type_ignores_init_data:
  "fst (get_platform_type hst (st\<lparr>init_data := b\<rparr>)) = fst (get_platform_type hst st)"
  by (simp add: get_platform_type_def Let_def split: host_file.splits prod.splits)

lemma get_platform_type_ignores_platform_data:
  "fst (get_platform_type hst (st\<lparr>platform_data := d\<rparr>)) = fst (get_platform_type hst st)"
  by (simp add: get_platform_type_def Let_def split: host_file.splits prod.splits)

text \<open>
  Claim C8. On its first call \<^verbatim>\<open>get_platform_data\<close> returns \<^verbatim>\<open>NULL\<close> when
  \<^verbatim>\<open>get_platform_type\<close> returns \<^verbatim>\<open>NULL\<close> or no entry of the table has the platform type as
  its name, and otherwise the last entry of the table whose name equals the platform type
  (the scan never stops early). Every later call, on any host, returns the same result and
  leaves the state as it is.
\<close>

theorem get_platform_data_lookup:
  assumes "\<not> init_data st" "platform_data st = None"
  shows "fst (get_platform_data_in table hst st) =
           (case fst (get_platform_type hst st) of
              None \<Rightarrow> None
            | Some t \<Rightarrow>
                (case filter (\<lambda>e. name e = t) table of
                   [] \<Rightarrow> None
                 | m # ms \<Rightarrow> Some (last (m # ms)))) \<and>
         get_platform_data_in table hst' (snd (get_platform_data_in table hst st))
           = get_platform_data_in table hst st"
proof -
  let ?st0 = "st\<lparr>init_data := True\<rparr>"
  obtain ptype st1 where g: "get_platform_type hst ?st0 = (ptype, st1)"
    by (cases "get_platform_type hst ?st0")
  have k: "init_data st1" "platform_data st1 = None"
    using get_platform_type_keeps_data [of hst ?st0] g assms by simp_all
  have same: "fst (get_platform_type hst st) = ptype"
    using g get_platform_type_ignores_init_data [where hst = hst and st = st and b = True]
    by simp
  show ?thesis
  proof (cases ptype)
    case None
    then show ?thesis
      using assms g k same by (simp add: get_platform_data_in_def)
  next
    case (Some t)
    then show ?thesis
      using assms g k same
      by (simp add: get_platform_data_in_def scan_platform_data_last Let_def split: list.splits)
  qed
qed

section \<open>Properties of the endpoint configuration\<close>

lemma get_platform_type_frame:
  assumes "get_platform_type hst st = (r, st')"
  shows "nccl_proto_configured st' = nccl_proto_configured st"
    "need_ordering st' = need_ordering st" "environ st' = environ st"
    "nccl_ofi_selected_protocol st' = nccl_ofi_selected_protocol st"
    "support_gdr st' = support_gdr st" "nic_dup_conns st' = nic_dup_conns st"
    "net_latency st' = net_latency st" "domain_per_thread st' = domain_per_thread st"
    "init_data st' = init_data st" "platform_data st' = platform_data st"
  using assms
  by (auto simp: get_platform_type_def Let_def split: if_splits host_file.splits prod.splits)

lemma get_platform_data_in_frame:
  assumes "get_platform_data_in table hst st = (r, st')"
  shows "nccl_proto_configured st' = nccl_proto_configured st"
    "need_ordering st' = need_ordering st" "environ st' = environ st"
    "nccl_ofi_selected_protocol st' = nccl_ofi_selected_protocol st"
    "support_gdr st' = support_gdr st" "nic_dup_conns st' = nic_dup_conns st"
    "net_latency st' = net_latency st" "domain_per_thread st' = domain_per_thread st"
proof -
  obtain pt s1 where g: "get_platform_type hst (st\<lparr>init_data := True\<rparr>) = (pt, s1)"
    by (cases "get_platform_type hst (st\<lparr>init_data := True\<rparr>)")
  note f = get_platform_type_frame [OF g]
  have "nccl_proto_configured st' = nccl_proto_configured st \<and>
    need_ordering st' = need_ordering st \<and> environ st' = environ st \<and>
    nccl_ofi_selected_protocol st' = nccl_ofi_selected_protocol st \<and>
    support_gdr st' = support_gdr st \<and> nic_dup_conns st' = nic_dup_conns st \<and>
    net_latency st' = net_latency st \<and> domain_per_thread st' = domain_per_thread st"
    using assms g f
    by (auto simp: get_platform_data_in_def Let_def split: if_splits option.splits)
  then show "nccl_proto_configured st' = nccl_proto_configured st"
    "need_ordering st' = need_ordering st" "environ st' = environ st"
    "nccl_ofi_selected_protocol st' = nccl_ofi_selected_protocol st"
    "support_gdr st' = support_gdr st" "nic_dup_conns st' = nic_dup_conns st"
    "net_latency st' = net_latency st" "domain_per_thread st' = domain_per_thread st"
    by simp_all
qed

lemmas get_platform_data_frame = get_platform_data_in_frame [of platform_data_map, folded get_platform_data_def]

text \<open>The part before the lock changes the caches only, and makes no in-order call.\<close>

lemma ep_before_lock_Inl:
  assumes "ep_before_lock hst info endpoint st = Inl (res, st', ops)"
  shows "nccl_proto_configured st' = nccl_proto_configured st"
    "need_ordering st' = need_ordering st" "environ st' = environ st"
    "\<forall>v. res \<noteq> Returned v Ordering_Mismatch" "\<forall>on. Setopt_In_Order on \<notin> set ops"
proof -
  obtain pd s where g: "get_platform_data hst st = (pd, s)"
    by (cases "get_platform_data hst st")
  note f = get_platform_data_frame [OF g]
  have "nccl_proto_configured st' = nccl_proto_configured st \<and>
    need_ordering st' = need_ordering st \<and> environ st' = environ st \<and>
    (\<forall>v. res \<noteq> Returned v Ordering_Mismatch) \<and> (\<forall>on. Setopt_In_Order on \<notin> set ops)"
    using assms g f
    by (auto simp: ep_before_lock_def Let_def split: if_splits option.splits)
  then show "nccl_proto_configured st' = nccl_proto_configured st"
    "need_ordering st' = need_ordering st" "environ st' = environ st"
    "\<forall>v. res \<noteq> Returned v Ordering_Mismatch" "\<forall>on. Setopt_In_Order on \<notin> set ops"
    by simp_all
qed

lemma ep_before_lock_Inr:
  assumes "ep_before_lock hst info endpoint st = Inr (proto, opt, st', ops)"
  shows "nccl_proto_configured st' = nccl_proto_configured st"
    "need_ordering st' = need_ordering st" "environ st' = environ st"
    "nccl_ofi_selected_protocol st = Some proto"
    "\<forall>on. Setopt_In_Order on \<notin> set ops"
proof -
  obtain pd s where g: "get_platform_data hst st = (pd, s)"
    by (cases "get_platform_data hst st")
  note f = get_platform_data_frame [OF g]
  have "nccl_proto_configured st' = nccl_proto_configured st \<and>
    need_ordering st' = need_ordering st \<and> environ st' = environ st \<and>
    nccl_ofi_selected_protocol st = Some proto \<and> (\<forall>on. Setopt_In_Order on \<notin> set ops)"
    using assms g f
    by (auto simp: ep_before_lock_def Let_def split: if_splits option.splits)
  then show "nccl_proto_configured st' = nccl_proto_configured st"
    "need_ordering st' = need_ordering st" "environ st' = environ st"
    "nccl_ofi_selected_protocol st = Some proto"
    "\<forall>on. Setopt_In_Order on \<notin> set ops"
    by simp_all
qed

lemma ep_max_msg_result:
  assumes "ep_max_msg hst proto st ops = (res, st', ops')"
  shows "st' = st" "\<forall>v. res \<noteq> Returned v Ordering_Mismatch" "res \<noteq> Null_Dereference"
    "\<forall>v. res \<noteq> Returned v In_Order_Failure"
    "\<forall>on. Setopt_In_Order on \<in> set ops' \<longleftrightarrow> Setopt_In_Order on \<in> set ops"
  using assms by (auto simp: ep_max_msg_def Let_def split: if_splits)

lemmas ep_locked_unfold =
  ep_locked_def ep_max_msg_def in_order_attempt_def configure_ep_inorder_def
  configure_nccl_proto_def setenv_def Let_def

lemma ep_locked_configured:
  assumes "nccl_proto_configured st" "ep_locked hst proto opt st ops = (res, st', ops')"
  shows "nccl_proto_configured st' \<and> need_ordering st' = need_ordering st"
proof -
  obtain pt s1 where g: "get_platform_type hst st = (pt, s1)"
    by (cases "get_platform_type hst st")
  note f = get_platform_type_frame [OF g]
  show ?thesis
    using assms g f
    by (auto simp: ep_locked_unfold split: if_splits option.splits prod.splits)
qed

lemma ep_locked_unordered:
  assumes "nccl_proto_configured st" "\<not> need_ordering st"
    and "ep_locked hst proto opt st ops = (res, st', ops')"
  shows "(\<forall>v. res \<noteq> Returned v Ordering_Mismatch) \<and>
         (\<forall>on. Setopt_In_Order on \<in> set ops' \<longleftrightarrow> Setopt_In_Order on \<in> set ops)"
proof -
  obtain pt s1 where g: "get_platform_type hst st = (pt, s1)"
    by (cases "get_platform_type hst st")
  note f = get_platform_type_frame [OF g]
  show ?thesis
    using assms g f
    by (auto simp: ep_locked_unfold split: if_splits option.splits prod.splits)
qed

lemma ep_locked_ordered:
  assumes "nccl_proto_configured st" "need_ordering st"
    and "ep_locked hst proto opt st ops = (res, st', ops')"
    and "\<forall>on. Setopt_In_Order on \<notin> set ops"
  shows "(res \<noteq> Null_Dereference \<and> have_decl_write_in_order hst \<and> opt = Some on
            \<longrightarrow> Setopt_In_Order on \<in> set ops') \<and>
         (Setopt_In_Order on' \<in> set ops' \<and> fi_setopt_inorder hst on' \<noteq> 0
            \<longrightarrow> (\<exists>v. v \<noteq> 0 \<and> (res = Returned v In_Order_Failure \<or>
                                 res = Returned v Ordering_Mismatch)))"
proof -
  obtain pt s1 where g: "get_platform_type hst st = (pt, s1)"
    by (cases "get_platform_type hst st")
  note f = get_platform_type_frame [OF g]
  show ?thesis
    using assms g f
    by (auto simp: ep_locked_unfold ENOTSUP_def FI_EOPNOTSUPP_def FI_ENOPROTOOPT_def
        split: if_splits option.splits prod.splits)
qed

lemma ep_locked_first_unsupported:
  assumes "\<not> nccl_proto_configured st" "\<not> need_ordering st"
    and "ep_locked hst proto opt st ops = (res, st', ops')"
    and "\<forall>on. Setopt_In_Order on \<notin> set ops"
    and "Setopt_In_Order on \<in> set ops'"
    and "fi_setopt_inorder hst on = - FI_EOPNOTSUPP \<or> fi_setopt_inorder hst on = - FI_ENOPROTOOPT"
  shows "nccl_proto_configured st' \<and> \<not> need_ordering st'"
proof -
  obtain pt s1 where g: "get_platform_type hst st = (pt, s1)"
    by (cases "get_platform_type hst st")
  note f = get_platform_type_frame [OF g]
  show ?thesis
    using assms g f
    by (auto simp: ep_locked_unfold split: if_splits option.splits prod.splits)
qed

lemma ep_locked_p5:
  assumes "\<not> nccl_proto_configured st" "environ st ''NCCL_PROTO'' = None"
    and "strcasecmp_eq ''RDMA'' proto"
    and "fst (get_platform_type hst st) = Some ''p5.48xlarge''"
    and "ep_locked hst proto opt st ops = (res, st', ops')"
  shows "nccl_proto_configured st' \<and> \<not> need_ordering st' \<and>
         (\<forall>on. Setopt_In_Order on \<in> set ops' \<longleftrightarrow> Setopt_In_Order on \<in> set ops)"
proof -
  obtain pt s1 where g: "get_platform_type hst st = (pt, s1)"
    by (cases "get_platform_type hst st")
  note f = get_platform_type_frame [OF g]
  show ?thesis
    using assms g f
    by (auto simp: ep_locked_unfold split: if_splits option.splits prod.splits)
qed

text \<open>
  Claim C10. For every state, host and descriptor, a call with a \<^verbatim>\<open>NULL\<close> endpoint returns
  \<^verbatim>\<open>-EINVAL\<close> from the first check: the state is returned as it was, the result does not
  depend on it, and no call is made on the transport.
\<close>

theorem null_endpoint_rejected:
  "platform_config_endpoint hst info None st = (Returned (- EINVAL) Invalid_Endpoint, st, [])"
  by (simp add: platform_config_endpoint_def ep_before_lock_def)

lemma configured_is_final:
  assumes "nccl_proto_configured st"
    and "platform_config_endpoint hst info endpoint st = (res, st', ops)"
  shows "nccl_proto_configured st' \<and> need_ordering st' = need_ordering st"
proof (cases "ep_before_lock hst info endpoint st")
  case (Inl early)
  then show ?thesis
    using assms ep_before_lock_Inl(1,2) [of hst info endpoint st res st' ops]
    by (simp add: platform_config_endpoint_def)
next
  case (Inr go)
  obtain proto opt st1 ops1 where go: "go = (proto, opt, st1, ops1)"
    by (cases go)
  have l: "ep_locked hst proto opt st1 ops1 = (res, st', ops)"
    using assms Inr go by (simp add: platform_config_endpoint_def)
  show ?thesis
    using ep_locked_configured [OF _ l] ep_before_lock_Inr(1,2) [of hst info endpoint st proto opt st1 ops1]
      Inr go assms(1) by simp
qed

lemma unordered_call:
  assumes "nccl_proto_configured st" "\<not> need_ordering st"
    and "platform_config_endpoint hst info endpoint st = (res, st', ops)"
  shows "\<forall>v. res \<noteq> Returned v Ordering_Mismatch"
proof (cases "ep_before_lock hst info endpoint st")
  case (Inl early)
  then show ?thesis
    using assms ep_before_lock_Inl(4) [of hst info endpoint st res st' ops]
    by (simp add: platform_config_endpoint_def)
next
  case (Inr go)
  obtain proto opt st1 ops1 where go: "go = (proto, opt, st1, ops1)"
    by (cases go)
  have l: "ep_locked hst proto opt st1 ops1 = (res, st', ops)"
    using assms Inr go by (simp add: platform_config_endpoint_def)
  have "nccl_proto_configured st1" "\<not> need_ordering st1"
    using ep_before_lock_Inr(1,2) [of hst info endpoint st proto opt st1 ops1] Inr go assms
    by simp_all
  then show ?thesis
    using ep_locked_unordered [OF _ _ l] by simp
qed

lemma config_endpoints_configured:
  assumes "nccl_proto_configured st" "config_endpoints calls st = (rs, st')"
  shows "nccl_proto_configured st' \<and> need_ordering st' = need_ordering st"
  using assms
proof (induction calls arbitrary: st rs st')
  case Nil
  then show ?case by simp
next
  case (Cons call calls)
  obtain hst info endpoint where c: "call = (hst, info, endpoint)"
    by (cases call)
  obtain res st1 ops where p: "platform_config_endpoint hst info endpoint st = (res, st1, ops)"
    by (cases "platform_config_endpoint hst info endpoint st")
  have k: "nccl_proto_configured st1 \<and> need_ordering st1 = need_ordering st"
    using configured_is_final [OF Cons.prems(1) p] .
  show ?case
  proof (cases "res = Null_Dereference")
    case True
    then show ?thesis using Cons.prems c p k by simp
  next
    case False
    obtain rs2 st2 where r: "config_endpoints calls st1 = (rs2, st2)"
      by (cases "config_endpoints calls st1")
    have "st' = st2" using Cons.prems c p r False by simp
    then show ?thesis using Cons.IH [OF _ r] k by simp
  qed
qed

lemma config_endpoints_unordered:
  assumes "nccl_proto_configured st" "\<not> need_ordering st"
    and "config_endpoints calls st = (rs, st')"
  shows "\<forall>x \<in> set rs. \<forall>v. fst x \<noteq> Returned v Ordering_Mismatch"
  using assms
proof (induction calls arbitrary: st rs st')
  case Nil
  then show ?case by simp
next
  case (Cons call calls)
  obtain hst info endpoint where c: "call = (hst, info, endpoint)"
    by (cases call)
  obtain res st1 ops where p: "platform_config_endpoint hst info endpoint st = (res, st1, ops)"
    by (cases "platform_config_endpoint hst info endpoint st")
  have k: "nccl_proto_configured st1" "\<not> need_ordering st1"
    using configured_is_final [OF Cons.prems(1) p] Cons.prems(2) by simp_all
  have u: "\<forall>v. res \<noteq> Returned v Ordering_Mismatch"
    using unordered_call [OF Cons.prems(1,2) p] .
  show ?case
  proof (cases "res = Null_Dereference")
    case True
    then show ?thesis using Cons.prems c p by auto
  next
    case False
    obtain rs2 st2 where r: "config_endpoints calls st1 = (rs2, st2)"
      by (cases "config_endpoints calls st1")
    have "rs = (res, ops) # rs2" using Cons.prems c p r False by simp
    then show ?thesis using Cons.IH [OF k r] u by simp
  qed
qed

text \<open>
  Claim C5, as amended. The negotiation state belongs to the process, not to a transport
  domain. When the first negotiating call of the process (nothing configured yet) tries the
  in-order option and Libfabric answers that it is not supported, the state after the call
  is configured and unordered, and it stays so: in every later sequence of calls, on
  whatever domain and whatever their hosts report, no call returns through the ordering
  mismatch.
\<close>

theorem unsupported_first_call_is_final:
  assumes "\<not> nccl_proto_configured st" "\<not> need_ordering st"
    and "platform_config_endpoint hst info endpoint st = (res, st', ops)"
    and "Setopt_In_Order on \<in> set ops"
    and "fi_setopt_inorder hst on = - FI_EOPNOTSUPP \<or> fi_setopt_inorder hst on = - FI_ENOPROTOOPT"
    and "config_endpoints calls st' = (rs, st'')"
  shows "nccl_proto_configured st' \<and> \<not> need_ordering st' \<and>
         nccl_proto_configured st'' \<and> \<not> need_ordering st'' \<and>
         (\<forall>x \<in> set rs. \<forall>v. fst x \<noteq> Returned v Ordering_Mismatch)"
proof -
  have first: "nccl_proto_configured st' \<and> \<not> need_ordering st'"
  proof (cases "ep_before_lock hst info endpoint st")
    case (Inl early)
    then show ?thesis
      using assms(3,4) ep_before_lock_Inl(5) [of hst info endpoint st res st' ops]
      by (simp add: platform_config_endpoint_def)
  next
    case (Inr go)
    obtain proto opt st1 ops1 where go: "go = (proto, opt, st1, ops1)"
      by (cases go)
    have l: "ep_locked hst proto opt st1 ops1 = (res, st', ops)"
      using assms(3) Inr go by (simp add: platform_config_endpoint_def)
    note b = ep_before_lock_Inr [of hst info endpoint st proto opt st1 ops1]
    have "\<not> nccl_proto_configured st1" "\<not> need_ordering st1" "\<forall>on. Setopt_In_Order on \<notin> set ops1"
      using b Inr go assms(1,2) by simp_all
    then show ?thesis
      using ep_locked_first_unsupported [OF _ _ l _ assms(4,5)] by simp
  qed
  show ?thesis
    using first config_endpoints_configured [OF _ assms(6)]
      config_endpoints_unordered [OF _ _ assms(6)] by simp
qed

text \<open>
  Claim C3, as amended. Once the state is configured and ordered, every call leaves both
  flags as they are, and so does every later sequence of calls. A call that reaches the
  locked part with an option name for its protocol, in a build that declares the in-order
  option, and does not stop on a \<^verbatim>\<open>NULL\<close> platform type, sets that option again; and a call
  whose attempt Libfabric answers with anything but success returns a nonzero error, from
  the failure of the attempt or from the ordering mismatch.
\<close>

theorem ordered_outcome_is_enforced:
  assumes "nccl_proto_configured st" "need_ordering st"
    and "platform_config_endpoint hst info endpoint st = (res, st', ops)"
  shows "nccl_proto_configured st' \<and> need_ordering st' \<and>
         (ep_reaches_lock hst info endpoint st = Some (proto, Some on) \<and>
          have_decl_write_in_order hst \<and> res \<noteq> Null_Dereference
            \<longrightarrow> Setopt_In_Order on \<in> set ops) \<and>
         (Setopt_In_Order on' \<in> set ops \<and> fi_setopt_inorder hst on' \<noteq> 0
            \<longrightarrow> (\<exists>v. v \<noteq> 0 \<and> (res = Returned v In_Order_Failure \<or>
                                 res = Returned v Ordering_Mismatch))) \<and>
         (config_endpoints calls st' = (rs, st'')
            \<longrightarrow> nccl_proto_configured st'' \<and> need_ordering st'')"
proof -
  have flags: "nccl_proto_configured st' \<and> need_ordering st'"
    using configured_is_final [OF assms(1,3)] assms(2) by simp
  have later: "config_endpoints calls st' = (rs, st'')
      \<longrightarrow> nccl_proto_configured st'' \<and> need_ordering st''"
    using flags config_endpoints_configured [of st' calls rs st''] by auto
  have attempt: "(ep_reaches_lock hst info endpoint st = Some (proto, Some on) \<and>
          have_decl_write_in_order hst \<and> res \<noteq> Null_Dereference
            \<longrightarrow> Setopt_In_Order on \<in> set ops) \<and>
         (Setopt_In_Order on' \<in> set ops \<and> fi_setopt_inorder hst on' \<noteq> 0
            \<longrightarrow> (\<exists>v. v \<noteq> 0 \<and> (res = Returned v In_Order_Failure \<or>
                                 res = Returned v Ordering_Mismatch)))"
  proof (cases "ep_before_lock hst info endpoint st")
    case (Inl early)
    then show ?thesis
      using assms(3) ep_before_lock_Inl(5) [of hst info endpoint st res st' ops]
      by (simp add: platform_config_endpoint_def ep_reaches_lock_def)
  next
    case (Inr go)
    obtain p2 opt s2 o2 where go: "go = (p2, opt, s2, o2)"
      by (cases go)
    have l: "ep_locked hst p2 opt s2 o2 = (res, st', ops)"
      using assms(3) Inr go by (simp add: platform_config_endpoint_def)
    note b = ep_before_lock_Inr [of hst info endpoint st p2 opt s2 o2]
    have pre: "nccl_proto_configured s2" "need_ordering s2" "\<forall>on. Setopt_In_Order on \<notin> set o2"
      using b Inr go assms(1,2) by simp_all
    show ?thesis
      using ep_locked_ordered [OF pre(1,2) l pre(3), of on on'] Inr go
      by (auto simp: ep_reaches_lock_def)
  qed
  show ?thesis
    using flags later attempt by blast
qed

lemma get_platform_type_same_after_data:
  assumes "get_platform_data hst st = (pd, s)"
  shows "fst (get_platform_type hst s) = fst (get_platform_type hst st)"
proof (cases "init_data st")
  case True
  then show ?thesis
    using assms by (simp add: get_platform_data_def get_platform_data_in_def)
next
  case False
  let ?st0 = "st\<lparr>init_data := True\<rparr>"
  obtain pt s1 where g: "get_platform_type hst ?st0 = (pt, s1)"
    by (cases "get_platform_type hst ?st0")
  have again: "fst (get_platform_type hst s1) = pt"
    using get_platform_type_again [of hst hst ?st0] g by simp
  have "fst (get_platform_type hst s) = pt"
    using assms False g again
    by (auto simp: get_platform_data_def get_platform_data_in_def Let_def
        get_platform_type_ignores_platform_data split: option.splits)
  then show ?thesis
    using g get_platform_type_ignores_init_data [where hst = hst and st = st and b = True] by simp
qed

lemma ep_before_lock_platform_type:
  assumes "ep_before_lock hst info endpoint st = Inr (proto, opt, st', ops)"
  shows "fst (get_platform_type hst st') = fst (get_platform_type hst st)"
proof -
  obtain pd s where g: "get_platform_data hst st = (pd, s)"
    by (cases "get_platform_data hst st")
  note f = get_platform_type_same_after_data [OF g]
  show ?thesis
    using assms g f
    by (auto simp: ep_before_lock_def Let_def split: if_splits option.splits)
qed

text \<open>
  Claim C9, as amended. On a call in a state that is not configured yet, with no
  \<^verbatim>\<open>NCCL_PROTO\<close> in the environment, that passes the checks before the locked part (a
  non-null endpoint, the provider \<^verbatim>\<open>efa\<close>, the GDR requirement, the validation of native
  RDMA writes) with the RDMA protocol selected, on a host whose platform type is
  \<^verbatim>\<open>p5.48xlarge\<close>: the state after the call is configured and unordered, and the call does
  not set the in-order option on the endpoint.
\<close>

theorem p5_rdma_skips_ordering:
  assumes "\<not> nccl_proto_configured st" "environ st ''NCCL_PROTO'' = None"
    and "ep_reaches_lock hst info endpoint st = Some (proto, opt)"
    and "strcasecmp_eq ''RDMA'' proto"
    and "fst (get_platform_type hst st) = Some ''p5.48xlarge''"
    and "platform_config_endpoint hst info endpoint st = (res, st', ops)"
  shows "nccl_proto_configured st' \<and> \<not> need_ordering st' \<and>
         (\<forall>on. Setopt_In_Order on \<notin> set ops)"
proof -
  obtain s2 o2 where go: "ep_before_lock hst info endpoint st = Inr (proto, opt, s2, o2)"
    using assms(3)
    by (auto simp: ep_reaches_lock_def split: sum.splits prod.splits)
  have l: "ep_locked hst proto opt s2 o2 = (res, st', ops)"
    using assms(6) go by (simp add: platform_config_endpoint_def)
  note b = ep_before_lock_Inr [OF go]
  have pre: "\<not> nccl_proto_configured s2" "environ s2 ''NCCL_PROTO'' = None"
    "\<forall>on. Setopt_In_Order on \<notin> set o2"
    using b assms(1,2) by simp_all
  have t: "fst (get_platform_type hst s2) = Some ''p5.48xlarge''"
    using ep_before_lock_platform_type [OF go] assms(5) by simp
  show ?thesis
    using ep_locked_p5 [OF pre(1,2) assms(4) t l] pre(3) by simp
qed

section \<open>The claims on example hosts\<close>

text \<open>The P5 host: the lookup finds the P5 entry, in a table with two entries of that name
  the last of them, and nothing for a platform type that the table does not have; a later
  call on another host returns the first result.\<close>

theorem get_platform_data_lookup_witness:
  "\<not> init_data fresh_plugin \<and> platform_data fresh_plugin = None \<and>
   fst (get_platform_data_in platform_data_map p5_host fresh_plugin) = Some (platform_data_map ! 3) \<and>
   fst (get_platform_data_in duplicate_table p5_host fresh_plugin) = Some (duplicate_table ! 2) \<and>
   fst (get_platform_data_in platform_data_map (example_host ''m5.large'') fresh_plugin) = None \<and>
   get_platform_data_in platform_data_map p4d_host
       (snd (get_platform_data_in platform_data_map p5_host fresh_plugin))
     = get_platform_data_in platform_data_map p5_host fresh_plugin"
proof -
  have h: "\<not> init_data fresh_plugin" "platform_data fresh_plugin = None"
    by (simp_all add: fresh_plugin_def)
  have e1: "(case fst (get_platform_type p5_host fresh_plugin) of
              None \<Rightarrow> None
            | Some t \<Rightarrow>
                (case filter (\<lambda>e. name e = t) platform_data_map of
                   [] \<Rightarrow> None
                 | m # ms \<Rightarrow> Some (last (m # ms)))) = Some (platform_data_map ! 3)"
    by code_simp
  have e2: "(case fst (get_platform_type p5_host fresh_plugin) of
              None \<Rightarrow> None
            | Some t \<Rightarrow>
                (case filter (\<lambda>e. name e = t) duplicate_table of
                   [] \<Rightarrow> None
                 | m # ms \<Rightarrow> Some (last (m # ms)))) = Some (duplicate_table ! 2)"
    by code_simp
  have e3: "(case fst (get_platform_type (example_host ''m5.large'') fresh_plugin) of
              None \<Rightarrow> None
            | Some t \<Rightarrow>
                (case filter (\<lambda>e. name e = t) platform_data_map of
                   [] \<Rightarrow> None
                 | m # ms \<Rightarrow> Some (last (m # ms)))) = None"
    by code_simp
  show ?thesis
    using h e1 e2 e3
      get_platform_data_lookup [OF h, of platform_data_map p5_host p4d_host]
      get_platform_data_lookup [OF h, of duplicate_table p5_host p4d_host]
      get_platform_data_lookup [OF h, of platform_data_map "example_host ''m5.large''" p4d_host]
    by simp
qed

theorem null_endpoint_rejected_witness:
  "platform_config_endpoint unsupported_host efa_info None ordered_plugin
     = (Returned (- EINVAL) Invalid_Endpoint, ordered_plugin, [])"
  by (rule null_endpoint_rejected)

text \<open>A first call on which the option is not supported, and two later calls.\<close>

theorem unsupported_first_call_is_final_witness:
  "\<not> nccl_proto_configured (first_call_plugin ''SENDRECV'') \<and>
   \<not> need_ordering (first_call_plugin ''SENDRECV'') \<and>
   Setopt_In_Order FI_OPT_EFA_SENDRECV_IN_ORDER_ALIGNED_128_BYTES
     \<in> set (snd (snd (platform_config_endpoint unsupported_host efa_info (Some 1)
                          (first_call_plugin ''SENDRECV'')))) \<and>
   fi_setopt_inorder unsupported_host FI_OPT_EFA_SENDRECV_IN_ORDER_ALIGNED_128_BYTES
     = - FI_EOPNOTSUPP \<and>
   nccl_proto_configured (fst (snd (platform_config_endpoint unsupported_host efa_info (Some 1)
                                      (first_call_plugin ''SENDRECV'')))) \<and>
   \<not> need_ordering (fst (snd (platform_config_endpoint unsupported_host efa_info (Some 1)
                                (first_call_plugin ''SENDRECV'')))) \<and>
   \<not> need_ordering (snd (config_endpoints
       [(p4d_host, efa_info, Some 2), (unsupported_host, efa_info, Some 3)]
       (fst (snd (platform_config_endpoint unsupported_host efa_info (Some 1)
                    (first_call_plugin ''SENDRECV'')))))) \<and>
   map fst (fst (config_endpoints
       [(p4d_host, efa_info, Some 2), (unsupported_host, efa_info, Some 3)]
       (fst (snd (platform_config_endpoint unsupported_host efa_info (Some 1)
                    (first_call_plugin ''SENDRECV''))))))
     = [Returned 0 Configured, Returned 0 Configured]"
proof -
  let ?st = "first_call_plugin ''SENDRECV''"
  let ?X = "platform_config_endpoint unsupported_host efa_info (Some 1) ?st"
  let ?calls = "[(p4d_host, efa_info, Some 2), (unsupported_host, efa_info, Some 3)]"
  let ?Y = "config_endpoints ?calls (fst (snd ?X))"
  have h1: "\<not> nccl_proto_configured ?st" by code_simp
  have h2: "\<not> need_ordering ?st" by code_simp
  have h3: "?X = (fst ?X, fst (snd ?X), snd (snd ?X))" by simp
  have h4: "Setopt_In_Order FI_OPT_EFA_SENDRECV_IN_ORDER_ALIGNED_128_BYTES \<in> set (snd (snd ?X))"
    by code_simp
  have h5: "fi_setopt_inorder unsupported_host FI_OPT_EFA_SENDRECV_IN_ORDER_ALIGNED_128_BYTES
              = - FI_EOPNOTSUPP"
    by (simp add: unsupported_host_def)
  have h6: "?Y = (fst ?Y, snd ?Y)" by simp
  have e: "map fst (fst ?Y) = [Returned 0 Configured, Returned 0 Configured]"
    by code_simp
  show ?thesis
    using h1 h2 h4 h5 e unsupported_first_call_is_final [OF h1 h2 h3 h4 disjI1 [OF h5] h6]
    by simp
qed

text \<open>Claim C5 as the specification states it fails: the two flags are statics of the
  function, one pair for the process, and a call receives no domain. After a first endpoint
  on which the in-order option could be set, the first endpoint of a further domain, on
  which Libfabric answers that the option is not supported, returns \<^verbatim>\<open>-ENOTSUP\<close> through the
  ordering mismatch, and the state stays ordered.\<close>

theorem second_domain_unsupported_counterexample:
  "nccl_proto_configured ordered_plugin \<and> need_ordering ordered_plugin \<and>
   fi_setopt_inorder unsupported_host FI_OPT_EFA_SENDRECV_IN_ORDER_ALIGNED_128_BYTES
     = - FI_EOPNOTSUPP \<and>
   snd (snd (platform_config_endpoint unsupported_host efa_info (Some 2) ordered_plugin))
     = [Setopt_In_Order FI_OPT_EFA_SENDRECV_IN_ORDER_ALIGNED_128_BYTES] \<and>
   fst (platform_config_endpoint unsupported_host efa_info (Some 2) ordered_plugin)
     = Returned (- ENOTSUP) Ordering_Mismatch \<and>
   need_ordering (fst (snd (platform_config_endpoint unsupported_host efa_info (Some 2)
                              ordered_plugin)))"
  by code_simp

text \<open>A call on the ordered process whose host no longer supports the option.\<close>

theorem ordered_outcome_is_enforced_witness:
  "nccl_proto_configured ordered_plugin \<and> need_ordering ordered_plugin \<and>
   ep_reaches_lock unsupported_host efa_info (Some 2) ordered_plugin
     = Some (''SENDRECV'', Some FI_OPT_EFA_SENDRECV_IN_ORDER_ALIGNED_128_BYTES) \<and>
   have_decl_write_in_order unsupported_host \<and>
   fi_setopt_inorder unsupported_host FI_OPT_EFA_SENDRECV_IN_ORDER_ALIGNED_128_BYTES \<noteq> 0 \<and>
   Setopt_In_Order FI_OPT_EFA_SENDRECV_IN_ORDER_ALIGNED_128_BYTES
     \<in> set (snd (snd (platform_config_endpoint unsupported_host efa_info (Some 2) ordered_plugin))) \<and>
   fst (platform_config_endpoint unsupported_host efa_info (Some 2) ordered_plugin)
     = Returned (- ENOTSUP) Ordering_Mismatch \<and>
   need_ordering (fst (snd (platform_config_endpoint unsupported_host efa_info (Some 2)
                              ordered_plugin))) \<and>
   need_ordering (snd (config_endpoints [(p4d_host, efa_info, Some 3)]
     (fst (snd (platform_config_endpoint unsupported_host efa_info (Some 2) ordered_plugin)))))"
proof -
  let ?X = "platform_config_endpoint unsupported_host efa_info (Some 2) ordered_plugin"
  let ?opt = "FI_OPT_EFA_SENDRECV_IN_ORDER_ALIGNED_128_BYTES"
  let ?Y = "config_endpoints [(p4d_host, efa_info, Some 3)] (fst (snd ?X))"
  have h1: "nccl_proto_configured ordered_plugin" by code_simp
  have h2: "need_ordering ordered_plugin" by code_simp
  have h3: "?X = (fst ?X, fst (snd ?X), snd (snd ?X))" by simp
  have h4: "ep_reaches_lock unsupported_host efa_info (Some 2) ordered_plugin
              = Some (''SENDRECV'', Some ?opt)"
    by code_simp
  have h5: "have_decl_write_in_order unsupported_host" by code_simp
  have h6: "fst ?X = Returned (- ENOTSUP) Ordering_Mismatch" by code_simp
  have h7: "fi_setopt_inorder unsupported_host ?opt \<noteq> 0"
    by (simp add: unsupported_host_def FI_EOPNOTSUPP_def)
  have h8: "?Y = (fst ?Y, snd ?Y)" by simp
  show ?thesis
    using h1 h2 h4 h5 h6 h7 h8
      ordered_outcome_is_enforced [OF h1 h2 h3, where proto = "''SENDRECV''" and on = ?opt
        and on' = ?opt and calls = "[(p4d_host, efa_info, Some 3)]" and rs = "fst ?Y"
        and st'' = "snd ?Y"]
    by simp
qed

text \<open>Claim C3 as the specification states it fails: on the ordered process, a call with a
  \<^verbatim>\<open>NULL\<close> endpoint and a call on a provider other than \<^verbatim>\<open>efa\<close> return without setting the
  in-order option again, the second one with success, on a host that would have answered
  that the option is not supported.\<close>

theorem ordered_reattempt_counterexample:
  "nccl_proto_configured ordered_plugin \<and> need_ordering ordered_plugin \<and>
   fst (platform_config_endpoint unsupported_host efa_info None ordered_plugin)
     = Returned (- EINVAL) Invalid_Endpoint \<and>
   snd (snd (platform_config_endpoint unsupported_host efa_info None ordered_plugin)) = [] \<and>
   fst (platform_config_endpoint unsupported_host (efa_info\<lparr>prov_name := ''tcp''\<rparr>) (Some 2)
          ordered_plugin) = Returned 0 Not_Efa \<and>
   snd (snd (platform_config_endpoint unsupported_host (efa_info\<lparr>prov_name := ''tcp''\<rparr>) (Some 2)
               ordered_plugin)) = []"
  by code_simp

text \<open>The first call of a process on a P5 host with the RDMA protocol.\<close>

theorem p5_rdma_skips_ordering_witness:
  "\<not> nccl_proto_configured (first_call_plugin ''RDMA'') \<and>
   environ (first_call_plugin ''RDMA'') ''NCCL_PROTO'' = None \<and>
   ep_reaches_lock p5_host efa_info (Some 1) (first_call_plugin ''RDMA'')
     = Some (''RDMA'', Some FI_OPT_EFA_WRITE_IN_ORDER_ALIGNED_128_BYTES) \<and>
   strcasecmp_eq ''RDMA'' ''RDMA'' \<and>
   fst (get_platform_type p5_host (first_call_plugin ''RDMA'')) = Some ''p5.48xlarge'' \<and>
   nccl_proto_configured (fst (snd (platform_config_endpoint p5_host efa_info (Some 1)
                                      (first_call_plugin ''RDMA'')))) \<and>
   \<not> need_ordering (fst (snd (platform_config_endpoint p5_host efa_info (Some 1)
                                (first_call_plugin ''RDMA'')))) \<and>
   snd (snd (platform_config_endpoint p5_host efa_info (Some 1) (first_call_plugin ''RDMA'')))
     = [Getopt_Emulated_Write, Setopt_Max_Msg_Size]"
proof -
  let ?st = "first_call_plugin ''RDMA''"
  let ?X = "platform_config_endpoint p5_host efa_info (Some 1) ?st"
  have h1: "\<not> nccl_proto_configured ?st" by code_simp
  have h2: "environ ?st ''NCCL_PROTO'' = None" by code_simp
  have h3: "ep_reaches_lock p5_host efa_info (Some 1) ?st
              = Some (''RDMA'', Some FI_OPT_EFA_WRITE_IN_ORDER_ALIGNED_128_BYTES)"
    by code_simp
  have h4: "strcasecmp_eq ''RDMA'' ''RDMA''" by code_simp
  have h5: "fst (get_platform_type p5_host ?st) = Some ''p5.48xlarge''" by code_simp
  have h6: "?X = (fst ?X, fst (snd ?X), snd (snd ?X))" by simp
  have e: "snd (snd ?X) = [Getopt_Emulated_Write, Setopt_Max_Msg_Size]" by code_simp
  show ?thesis
    using h1 h2 h3 h4 h5 e p5_rdma_skips_ordering [OF h1 h2 h3 h4 h5 h6]
    by simp
qed

text \<open>Claim C9 as the specification states it fails: with no \<^verbatim>\<open>NCCL_PROTO\<close>, the RDMA
  protocol and the platform type \<^verbatim>\<open>p5.48xlarge\<close>, a first call that finds GDR unsupported
  (the P5 entry requires it), and a first call with a \<^verbatim>\<open>NULL\<close> endpoint, return \<^verbatim>\<open>-EINVAL\<close>
  and record nothing.\<close>

theorem p5_rdma_gdr_counterexample:
  "environ (first_call_plugin ''RDMA''\<lparr>support_gdr := GDR_UNSUPPORTED\<rparr>) ''NCCL_PROTO'' = None \<and>
   nccl_ofi_selected_protocol (first_call_plugin ''RDMA''\<lparr>support_gdr := GDR_UNSUPPORTED\<rparr>)
     = Some ''RDMA'' \<and>
   fst (get_platform_type p5_host (first_call_plugin ''RDMA''\<lparr>support_gdr := GDR_UNSUPPORTED\<rparr>))
     = Some ''p5.48xlarge'' \<and>
   \<not> nccl_proto_configured (first_call_plugin ''RDMA''\<lparr>support_gdr := GDR_UNSUPPORTED\<rparr>) \<and>
   fst (platform_config_endpoint p5_host efa_info (Some 1)
          (first_call_plugin ''RDMA''\<lparr>support_gdr := GDR_UNSUPPORTED\<rparr>))
     = Returned (- EINVAL) Gdr_Disabled \<and>
   \<not> nccl_proto_configured (fst (snd (platform_config_endpoint p5_host efa_info (Some 1)
          (first_call_plugin ''RDMA''\<lparr>support_gdr := GDR_UNSUPPORTED\<rparr>)))) \<and>
   fst (platform_config_endpoint p5_host efa_info None (first_call_plugin ''RDMA''))
     = Returned (- EINVAL) Invalid_Endpoint \<and>
   \<not> nccl_proto_configured (fst (snd (platform_config_endpoint p5_host efa_info None
          (first_call_plugin ''RDMA''))))"
  by code_simp

section \<open>Properties of the initialization\<close>

lemma kept_refl: "kept st st"
  by (simp add: kept_def)

lemma kept_trans: "kept a b \<Longrightarrow> kept b c \<Longrightarrow> kept a c"
  by (simp add: kept_def)

lemma setenv_step_kept:
  assumes "overwrite = 0 \<or> environ st var = None"
  shows "kept st (step_state (setenv_step hst var val overwrite st))"
  using assms by (auto simp: kept_def setenv_step_def setenv_def)

lemma then_step_kept:
  assumes "kept st (step_state s)" "\<And>st1. kept st1 (step_state (f st1))"
  shows "kept st (step_state (then_step s f))"
proof (cases s)
  case (Goto_Exit r st1)
  then show ?thesis using assms(1) by simp
next
  case (Next st1)
  then show ?thesis using assms kept_trans [of st st1 "step_state (f st1)"] by simp
qed

lemma fork_safe_step_kept: "kept st (step_state (fork_safe_step hst st))"
  by (simp add: fork_safe_step_def setenv_step_kept kept_refl)

lemma configure_nvls_option_kept: "kept st (step_state (configure_nvls_option hst st))"
  by (simp add: configure_nvls_option_def setenv_step_kept kept_refl split: option.splits)

lemma force_flush_step_kept: "kept st (step_state (force_flush_step hst pd st))"
  by (simp add: force_flush_step_def setenv_step_kept kept_refl)

lemma cuda_steps_kept: "kept st (step_state (cuda_steps hst pd st))"
  unfolding cuda_steps_def
  by (auto intro!: then_step_kept fork_safe_step_kept configure_nvls_option_kept
      force_flush_step_kept setenv_step_kept kept_refl)

lemma get_platform_type_kept: "kept st (snd (get_platform_type hst st))"
  using get_platform_type_frame [of hst st "fst (get_platform_type hst st)"
      "snd (get_platform_type hst st)"]
  by (simp add: kept_def)

lemma get_platform_data_kept: "kept st (snd (get_platform_data hst st))"
  using get_platform_data_frame [of hst st "fst (get_platform_data hst st)"
      "snd (get_platform_data hst st)"]
  by (simp add: kept_def)

lemma topology_step_kept: "kept st (step_state (topology_step hst pd st))"
proof -
  let ?s = "snd (get_platform_type hst st)"
  have k: "kept st ?s" by (rule get_platform_type_kept)
  have e: "environ ?s = environ st"
    using get_platform_type_frame(3) [of hst st "fst (get_platform_type hst st)" ?s] by simp
  have s: "environ st ''NCCL_TOPO_FILE'' = None \<Longrightarrow>
      kept st (step_state (setenv_step hst ''NCCL_TOPO_FILE'' p 1 ?s))" for p
    using kept_trans [OF k setenv_step_kept [of 1 ?s "''NCCL_TOPO_FILE''" hst p]] e by simp
  show ?thesis
    using k s by (auto simp: topology_step_def Let_def kept_refl split: option.splits)
qed

lemma tunables_step_environ: "environ (tunables_step hst pd select_efa st) = environ st"
  by (simp add: tunables_step_def Let_def split: option.splits)

lemma tunables_step_dup_conns:
  "nic_dup_conns st \<noteq> 0 \<Longrightarrow> nic_dup_conns (tunables_step hst pd select_efa st) = nic_dup_conns st"
  by (simp add: tunables_step_def Let_def split: option.splits)

lemma tunables_step_latency:
  "0 \<le> ofi_nccl_net_latency hst \<Longrightarrow> net_latency (tunables_step hst pd select_efa st) = net_latency st"
  by (simp add: tunables_step_def Let_def split: option.splits)

lemma tunables_step_protocol:
  "ofi_nccl_protocol hst \<noteq> None \<Longrightarrow>
   nccl_ofi_selected_protocol (tunables_step hst pd select_efa st) = nccl_ofi_selected_protocol st"
  by (auto simp: tunables_step_def Let_def split: option.splits)

lemma tunables_step_domain:
  "ofi_nccl_domain_per_thread hst \<noteq> - 1 \<Longrightarrow>
   domain_per_thread (tunables_step hst pd select_efa st) = ofi_nccl_domain_per_thread hst"
  by (simp add: tunables_step_def Let_def split: option.splits)

lemma setenv_step_exit:
  "setenv_step hst var val overwrite st = Goto_Exit r s \<Longrightarrow> r \<noteq> 0"
  by (auto simp: setenv_step_def setenv_def split: if_splits)

lemma then_step_exit:
  assumes "then_step s f = Goto_Exit r st'"
  shows "s = Goto_Exit r st' \<or> (\<exists>s1. s = Next s1 \<and> f s1 = Goto_Exit r st')"
  using assms by (cases s) auto

lemma fork_safe_step_exit: "fork_safe_step hst st = Goto_Exit r s \<Longrightarrow> r \<noteq> 0"
  by (auto simp: fork_safe_step_def dest: setenv_step_exit split: if_splits)

lemma configure_nvls_option_exit: "configure_nvls_option hst st = Goto_Exit r s \<Longrightarrow> r \<noteq> 0"
  by (auto simp: configure_nvls_option_def ENOTSUP_def dest: setenv_step_exit
      split: if_splits option.splits)

lemma force_flush_step_exit: "force_flush_step hst pd st = Goto_Exit r s \<Longrightarrow> r \<noteq> 0"
  by (auto simp: force_flush_step_def dest: setenv_step_exit split: if_splits)

lemma cuda_steps_exit: "cuda_steps hst pd st = Goto_Exit r s \<Longrightarrow> r \<noteq> 0"
  unfolding cuda_steps_def
  by (auto dest!: then_step_exit
      dest: setenv_step_exit fork_safe_step_exit configure_nvls_option_exit force_flush_step_exit
      split: if_splits)

lemma topology_step_exit: "topology_step hst pd st = Goto_Exit r s \<Longrightarrow> r \<noteq> 0"
  by (auto simp: topology_step_def Let_def ENOMEM_def dest: setenv_step_exit
      split: if_splits option.splits)

text \<open>
  Claim C6, as amended. \<^verbatim>\<open>platform_init\<close> leaves every environment variable that has a value
  before the call with that value (so the fork-safety flag, \<^verbatim>\<open>NCCL_NVLS_ENABLE\<close>,
  \<^verbatim>\<open>NCCL_NET_FORCE_FLUSH\<close>, \<^verbatim>\<open>NCCL_TOPO_FILE\<close> and the two chunk sizes, when the user has set
  them to anything); it leaves the provider filter alone when \<^verbatim>\<open>FI_PROVIDER\<close> is set; and it
  leaves the duplicate-connection count, the latency and the protocol alone when the user's
  value is one the code does not read as unset: a count other than 0, a latency parameter
  that is not negative, a protocol parameter that is present. A domain-per-thread parameter
  other than -1 is what \<^verbatim>\<open>domain_per_thread\<close> holds after a successful call.
\<close>

theorem platform_init_respects_overrides:
  assumes "platform_init hst provider_filter st = (r, provider_filter', st')"
  shows "(environ st var = Some val \<longrightarrow> environ st' var = Some val) \<and>
         (environ st ''FI_PROVIDER'' \<noteq> None \<longrightarrow> provider_filter' = provider_filter) \<and>
         (nic_dup_conns st \<noteq> 0 \<longrightarrow> nic_dup_conns st' = nic_dup_conns st) \<and>
         (0 \<le> ofi_nccl_net_latency hst \<longrightarrow> net_latency st' = net_latency st) \<and>
         (ofi_nccl_protocol hst \<noteq> None \<longrightarrow>
            nccl_ofi_selected_protocol st' = nccl_ofi_selected_protocol st) \<and>
         (r = 0 \<and> ofi_nccl_domain_per_thread hst \<noteq> - 1 \<longrightarrow>
            domain_per_thread st' = ofi_nccl_domain_per_thread hst)"
proof -
  obtain pd st1 where g: "get_platform_data hst st = (pd, st1)"
    by (cases "get_platform_data hst st")
  have k1: "kept st st1"
    using get_platform_data_kept [of st hst] g by simp
  have e1: "environ st1 = environ st"
    using get_platform_data_frame(3) [OF g] .
  let ?c = "then_step (cuda_steps hst pd st1) (topology_step hst pd)"
  have k2: "kept st (step_state ?c)"
    using kept_trans [OF k1 then_step_kept [OF cuda_steps_kept topology_step_kept]] .
  let ?sel = "environ st ''FI_PROVIDER'' = None \<or> environ st ''FI_PROVIDER'' = Some ''efa''"
  show ?thesis
  proof (cases ?c)
    case (Goto_Exit r2 st2)
    then have "st' = st2" "provider_filter' = (if environ st ''FI_PROVIDER'' = None then Some ''efa'' else provider_filter)"
      "r = r2"
      using assms g e1 by (simp_all add: platform_init_def Let_def)
    moreover have "r2 \<noteq> 0"
      using Goto_Exit by (auto dest!: then_step_exit dest: cuda_steps_exit topology_step_exit)
    ultimately show ?thesis
      using k2 Goto_Exit by (auto simp: kept_def)
  next
    case (Next st2)
    then have "st' = tunables_step hst pd ?sel st2" "provider_filter' = (if environ st ''FI_PROVIDER'' = None then Some ''efa'' else provider_filter)"
      using assms g e1 by (simp_all add: platform_init_def Let_def)
    then show ?thesis
      using k2 Next tunables_step_environ [of hst pd ?sel st2]
        tunables_step_dup_conns [of st2 hst pd ?sel] tunables_step_latency [of hst pd ?sel st2]
        tunables_step_protocol [of hst pd ?sel st2] tunables_step_domain [of hst pd ?sel st2]
      by (auto simp: kept_def)
  qed
qed

theorem platform_init_respects_overrides_witness:
  "environ user_plugin ''NCCL_TOPO_FILE'' = Some ''/tmp/topo.xml'' \<and>
   environ user_plugin ''FI_PROVIDER'' \<noteq> None \<and>
   nic_dup_conns user_plugin \<noteq> 0 \<and> 0 \<le> ofi_nccl_net_latency user_host \<and>
   ofi_nccl_protocol user_host \<noteq> None \<and> ofi_nccl_domain_per_thread user_host \<noteq> - 1 \<and>
   fst (platform_init user_host (Some ''tcp;ofi_rxm'') user_plugin) = 0 \<and>
   fst (snd (platform_init user_host (Some ''tcp;ofi_rxm'') user_plugin)) = Some ''tcp;ofi_rxm'' \<and>
   environ (snd (snd (platform_init user_host (Some ''tcp;ofi_rxm'') user_plugin))) ''NCCL_TOPO_FILE''
     = Some ''/tmp/topo.xml'' \<and>
   nic_dup_conns (snd (snd (platform_init user_host (Some ''tcp;ofi_rxm'') user_plugin))) = 2 \<and>
   net_latency (snd (snd (platform_init user_host (Some ''tcp;ofi_rxm'') user_plugin))) = 30 \<and>
   nccl_ofi_selected_protocol (snd (snd (platform_init user_host (Some ''tcp;ofi_rxm'') user_plugin)))
     = Some ''SENDRECV'' \<and>
   domain_per_thread (snd (snd (platform_init user_host (Some ''tcp;ofi_rxm'') user_plugin))) = 1"
proof -
  let ?X = "platform_init user_host (Some ''tcp;ofi_rxm'') user_plugin"
  have h: "?X = (fst ?X, fst (snd ?X), snd (snd ?X))" by simp
  have e1: "environ user_plugin ''NCCL_TOPO_FILE'' = Some ''/tmp/topo.xml''" by code_simp
  have e2: "environ user_plugin ''FI_PROVIDER'' \<noteq> None" by code_simp
  have e3: "nic_dup_conns user_plugin = 2" by code_simp
  have e4: "ofi_nccl_net_latency user_host = 30" by code_simp
  have e5: "ofi_nccl_protocol user_host = Some ''SENDRECV''" by code_simp
  have e6: "ofi_nccl_domain_per_thread user_host = 1" by code_simp
  have e7: "fst ?X = 0" by code_simp
  have e8: "net_latency user_plugin = 30"
    by (simp add: user_plugin_def)
  have e9: "nccl_ofi_selected_protocol user_plugin = Some ''SENDRECV''" by code_simp
  show ?thesis
    using e1 e2 e3 e4 e5 e6 e7 e8 e9
      platform_init_respects_overrides [OF h, of "''NCCL_TOPO_FILE''" "''/tmp/topo.xml''"]
    by simp
qed

text \<open>Claim C6 as the specification states it fails: a duplicate-connection count that
  the user has set to 0 becomes 4 on a P3dn host, and a domain-per-thread parameter set to
  -1 becomes 1 on a Trn1 host.\<close>

theorem platform_init_sentinel_counterexample:
  "nic_dup_conns (fresh_plugin\<lparr>nic_dup_conns := 0\<rparr>) = 0 \<and>
   nic_dup_conns (snd (snd (platform_init p3dn_host None (fresh_plugin\<lparr>nic_dup_conns := 0\<rparr>)))) = 4 \<and>
   ofi_nccl_domain_per_thread (trn1_host\<lparr>ofi_nccl_domain_per_thread := - 1\<rparr>) = - 1 \<and>
   domain_per_thread (snd (snd (platform_init (trn1_host\<lparr>ofi_nccl_domain_per_thread := - 1\<rparr>)
                                  None fresh_plugin))) = 1"
  by code_simp

end
